theory Spec2Isabelle
  imports Main "HOL-Library.AList"
begin

section \<open>Data model\<close>

text \<open>
  The embedding follows \<^verbatim>\<open>mypy_django_plugin/transformers/models.py\<close>.
  A mypy \<^verbatim>\<open>TypeInfo\<close> is referred to by the fully qualified name under which
  it resolves; an \<^verbatim>\<open>Instance\<close> holds that reference and its type arguments.
  Python exceptions are values of \<open>error\<close>; a function that can raise after it has
  already mutated the analyzer returns the pair of its outcome and the state reached.
\<close>

datatype error = IncompleteDefnException | IndexError | KeyError

datatype type_of_any = TypeOfAny_explicit | TypeOfAny_special_form

datatype mtype = AnyType type_of_any | InstanceT inst | OtherType string
and inst = Instance (inst_type: string) (inst_args: "mtype list")

datatype arg_kind = ARG_POS | ARG_STAR2

datatype argument = Argument string mtype arg_kind

text \<open>
  Symbol nodes: \<open>Var fullname type\<close>, \<open>FuncDef fullname self_type arguments return_type\<close>
  and any other kind of node, kept opaque. A \<^verbatim>\<open>SymbolTableNode\<close> may have no node.
\<close>

datatype node = Var string mtype | FuncDef string mtype "argument list" mtype | OtherNode string

datatype symbol = SymbolTableNode (sym_node: "node option")

record meta_node =
  fallback_to_any :: bool

text \<open>
  \<open>names\<close> is the symbol table, a Python dict kept in insertion order; \<open>mro\<close> lists the
  ancestors of the class after the class itself; \<open>from_queryset_managers\<close> is the entry of
  that name in \<^verbatim>\<open>TypeInfo.metadata\<close>, \<open>None\<close> when the key is missing;
  \<open>nested_meta\<close> is the nested \<^verbatim>\<open>Meta\<close> class of the declaration, if it has one.
\<close>

record typeinfo =
  names :: "(string \<times> symbol) list"
  bases :: "inst list"
  mro :: "string list"
  info_module_name :: string
  from_queryset_managers :: "(string \<times> string) list option"
  nested_meta :: "meta_node option"

text \<open>The place a diagnostic is reported at: the class definition or a symbol's node.\<close>

datatype err_context = ClassDefContext | NodeContext node

text \<open>
  A runtime Python class: its \<^verbatim>\<open>__name__\<close> and the dotted name that
  \<^verbatim>\<open>helpers.get_class_fullname\<close> gives for it.
\<close>

record klass =
  klass_name :: string
  get_class_fullname :: string

text \<open>
  Django's runtime descriptors. \<open>is_ForeignKey\<close> is \<^verbatim>\<open>isinstance(field, ForeignKey)\<close>,
  \<open>is_DateField\<close> is \<^verbatim>\<open>isinstance(field, (DateField, DateTimeField))\<close>,
  \<open>related_model_repr\<close> is \<^verbatim>\<open>repr(field.related_model)\<close>.
\<close>

record field =
  field_name :: string
  attname :: string
  field_class :: klass
  is_ForeignKey :: bool
  related_model_repr :: string
  choices :: "(string \<times> string) list option"
  is_DateField :: bool
  field_null :: bool

datatype rel_kind = OneToOneRel | ManyToOneRel | ManyToManyRel | ForeignObjectRel

record relation =
  get_accessor_name :: "string option"
  rel_kind :: rel_kind

text \<open>
  A manager object: its class, the first base of its class and the \<^verbatim>\<open>__name__\<close>
  of the model it is bound to.
\<close>

record manager =
  manager_class :: klass
  manager_class_base :: klass
  manager_model_name :: string

record model_cls =
  model_class :: klass
  abstract :: bool
  auto_field :: "field option"
  get_fields :: "field list"
  managers_map :: "(string \<times> manager) list"
  default_manager :: manager

text \<open>
  What the steps read and never write: the \<^verbatim>\<open>DjangoContext\<close>, the field-type
  oracle \<^verbatim>\<open>get_field_descriptor_types\<close> and the constants of
  \<^verbatim>\<open>mypy_django_plugin.lib.fullnames\<close>. None of them is part of the file
  under verification, so they are parameters.
\<close>

record env =
  get_model_class_by_fullname :: "string \<Rightarrow> model_cls option"
  get_field_related_model_cls :: "field \<Rightarrow> model_cls option"
  get_relation_related_model_cls :: "relation \<Rightarrow> model_cls option"
  get_primary_key_field :: "model_cls \<Rightarrow> field"
  get_field_nullability :: "field \<Rightarrow> bool"
  get_model_relations :: "model_cls \<Rightarrow> relation list"
  get_model_fields :: "model_cls \<Rightarrow> field list"
  get_field_descriptor_types :: "string \<Rightarrow> bool \<Rightarrow> mtype \<times> mtype"
  MANAGER_CLASSES :: "string list"
  RELATED_MANAGER_CLASS :: string
  OPTIONS_CLASS_FULLNAME :: string

text \<open>
  The \<^verbatim>\<open>ClassDefContext\<close> and the semantic analyzer behind it:
  \<open>cls_fullname\<close> and \<open>cls_info\<close> are \<^verbatim>\<open>ctx.cls.fullname\<close> and
  \<^verbatim>\<open>ctx.cls.info\<close>, \<open>types\<close> holds every other \<^verbatim>\<open>TypeInfo\<close> the analyzer
  knows, under its full name and in the order of registration, \<open>modules\<close> the names of
  the loaded modules, \<open>errors\<close> the calls of
  \<^verbatim>\<open>api.fail\<close> in order, \<open>deferred\<close> whether \<^verbatim>\<open>api.defer()\<close> was called.
\<close>

record state =
  cls_fullname :: string
  cls_info :: typeinfo
  types :: "(string \<times> typeinfo) list"
  modules :: "string list"
  errors :: "(string \<times> err_context) list"
  deferred :: bool
  final_iteration :: bool

type_synonym 'a outcome = "(error + 'a) \<times> state"

section \<open>Names that are not taken\<close>

text \<open>Python's \<^verbatim>\<open>str\<close> of a natural number: its decimal digits.\<close>

definition digit_char :: "nat \<Rightarrow> char" where
  "digit_char d = ''0123456789'' ! d"

fun str :: "nat \<Rightarrow> string" where
  "str n = (if n < 10 then [digit_char n] else str (n div 10) @ [digit_char (n mod 10)])"

declare str.simps [simp del]

text \<open>
  The loop \<^verbatim>\<open>while base + str(i) in table: i += 1\<close>, which gives the first number
  from \<open>i\<close> on that makes a name the table does not have. The table is finite and the
  names \<open>base + str(j)\<close> are different for different \<open>j\<close>, so each round leaves fewer
  names of the table ahead.
\<close>

function first_unused :: "string list \<Rightarrow> string \<Rightarrow> nat \<Rightarrow> nat" where
  "first_unused existing base i =
     (if base @ str i \<in> set existing then first_unused existing base (Suc i) else i)"
  by pat_completeness auto
termination
proof (relation "measure (\<lambda>(existing, base, i).
          length (filter (\<lambda>k. \<exists>j\<ge>i. k = base @ str j) existing))")
  show "wf (measure (\<lambda>(existing, base, i).
          length (filter (\<lambda>k. \<exists>j\<ge>i. k = base @ str j) existing)))"
    by simp
next
  fix existing :: "string list" and base :: string and i :: nat
  assume used: "base @ str i \<in> set existing"
  have digit: "a = b" if "a < 10" "b < 10" "digit_char a = digit_char b" for a b
  proof -
    have "distinct ''0123456789''" by simp
    moreover have "a < length ''0123456789''" "b < length ''0123456789''"
      using that by simp_all
    ultimately show "a = b"
      using that(3) unfolding digit_char_def by (simp only: nth_eq_iff_index_eq)
  qed
  have nonempty: "str n \<noteq> []" for n
    by (subst str.simps) simp
  have inj: "str n = str m \<Longrightarrow> n = m" for n m
  proof (induction n arbitrary: m rule: less_induct)
    case (less n)
    show ?case
    proof (cases "n < 10")
      case True
      show ?thesis
      proof (cases "m < 10")
        case m: True
        from less.prems True m have "digit_char n = digit_char m"
          by (simp add: str.simps [of n] str.simps [of m])
        with True m show ?thesis by (rule digit)
      next
        case False
        from less.prems True False nonempty [of "m div 10"] show ?thesis
          by (simp add: str.simps [of n] str.simps [of m])
      qed
    next
      case False
      show ?thesis
      proof (cases "m < 10")
        case True
        from less.prems True False nonempty [of "n div 10"] show ?thesis
          by (simp add: str.simps [of n] str.simps [of m])
      next
        case m: False
        from less.prems False m have a: "str (n div 10) = str (m div 10)"
          and b: "digit_char (n mod 10) = digit_char (m mod 10)"
          by (simp_all add: str.simps [of n] str.simps [of m])
        from False have "n div 10 < n" by simp
        from less.IH [OF this a] have "n div 10 = m div 10" .
        moreover have "n mod 10 = m mod 10"
          by (rule digit [OF _ _ b]) simp_all
        ultimately show ?thesis
          by (metis div_mult_mod_eq)
      qed
    qed
  qed
  let ?P = "\<lambda>k. \<exists>j\<ge>Suc i. k = base @ str j"
  let ?Q = "\<lambda>k. \<exists>j\<ge>i. k = base @ str j"
  have "?Q k" if "?P k" for k
    using that Suc_leD by blast
  then have sub: "filter ?P existing = filter ?P (filter ?Q existing)"
    by (auto intro!: filter_cong [OF refl])
  have "base @ str i \<in> set (filter ?Q existing)"
    using used by auto
  moreover have "\<not> ?P (base @ str i)"
  proof
    assume "?P (base @ str i)"
    then obtain j where "Suc i \<le> j" "str i = str j" by auto
    with inj [of i j] show False by simp
  qed
  ultimately have "length (filter ?P (filter ?Q existing)) < length (filter ?Q existing)"
    by (rule length_filter_less)
  with sub show "((existing, base, Suc i), existing, base, i) \<in> measure (\<lambda>(existing, base, i).
          length (filter (\<lambda>k. \<exists>j\<ge>i. k = base @ str j) existing))"
    by simp
qed

declare first_unused.simps [simp del]

text \<open>
  Modelled from the spec: \<^verbatim>\<open>gen_unique_name\<close> and
  \<^verbatim>\<open>get_unique_redefinition_name\<close> belong to mypy and are not part of the
  file. The first gives the base name when the table does not have it, and otherwise the
  base name followed by the first number from 1 on that is not taken; the second gives the
  name followed by \<^verbatim>\<open>-redefinition\<close>, and when that is taken appends the first number
  from 2 on that is not.
\<close>

definition gen_unique_name :: "string \<Rightarrow> string list \<Rightarrow> string" where
  "gen_unique_name base table =
     (if base \<notin> set table then base else base @ str (first_unused table base 1))"

definition get_unique_redefinition_name :: "string \<Rightarrow> string list \<Rightarrow> string" where
  "get_unique_redefinition_name name existing =
     (let r_name = name @ ''-redefinition'' in
      if r_name \<notin> set existing then r_name
      else r_name @ str (first_unused existing r_name 2))"

section \<open>ModelClassInitializer\<close>

text \<open>
  Modelled from the spec: \<^verbatim>\<open>helpers.lookup_fully_qualified_typeinfo\<close> is not part of
  the file; the Type Descriptor Resolver "looks up a previously-known type by a fully
  qualified name" and has no side effects. The declaration being processed resolves
  under its own name.
\<close>

definition lookup_typeinfo :: "state \<Rightarrow> string \<Rightarrow> typeinfo option" where
  "lookup_typeinfo st fullname =
     (if fullname = cls_fullname st then Some (cls_info st) else map_of (types st) fullname)"

definition lookup_typeinfo_or_incomplete_defn_error :: "state \<Rightarrow> string \<Rightarrow> error + typeinfo" where
  "lookup_typeinfo_or_incomplete_defn_error st fullname =
     (case lookup_typeinfo st fullname of
        None \<Rightarrow> Inl IncompleteDefnException
      | Some info \<Rightarrow> Inr info)"

definition lookup_class_typeinfo_or_incomplete_defn_error :: "state \<Rightarrow> klass \<Rightarrow> error + typeinfo" where
  "lookup_class_typeinfo_or_incomplete_defn_error st k =
     lookup_typeinfo_or_incomplete_defn_error st (get_class_fullname k)"

text \<open>
  Modelled from the spec: \<^verbatim>\<open>helpers.add_new_sym_for_info\<close> is not part of the file;
  the Symbol Table Mutator "inserts the Synthetic Attribute" of the given name and type
  into the declaration's symbol table. The variable is built as \<^verbatim>\<open>create_new_var\<close>
  builds it: its full name is the owner's full name, a dot and the name.
\<close>

definition add_new_sym_for_info :: "string \<Rightarrow> typeinfo \<Rightarrow> string \<Rightarrow> mtype \<Rightarrow> typeinfo" where
  "add_new_sym_for_info owner info name sym_type =
     info\<lparr>names := AList.update name
        (SymbolTableNode (Some (Var (owner @ ''.'' @ name) sym_type))) (names info)\<rparr>"

definition add_new_node_to_model_class :: "string \<Rightarrow> mtype \<Rightarrow> state \<Rightarrow> state" where
  "add_new_node_to_model_class name typ st =
     st\<lparr>cls_info := add_new_sym_for_info (cls_fullname st) (cls_info st) name typ\<rparr>"

text \<open>\<^verbatim>\<open>ModelClassInitializer.run\<close>, with the subclass's \<^verbatim>\<open>run_with_model_cls\<close> as argument.\<close>

definition run :: "env \<Rightarrow> (env \<Rightarrow> model_cls \<Rightarrow> state \<Rightarrow> unit outcome) \<Rightarrow> state \<Rightarrow> unit outcome" where
  "run e run_with_model_cls st =
     (case get_model_class_by_fullname e (cls_fullname st) of
        None \<Rightarrow> (Inr (), st)
      | Some model_cls \<Rightarrow> run_with_model_cls e model_cls st)"

text \<open>
  Modelled from the spec: \<^verbatim>\<open>TypeInfo.get\<close> and \<^verbatim>\<open>TypeInfo.has_readable_member\<close>
  belong to mypy and are not part of the file; a member is readable when the declaration
  has a symbol of that name or one of its ancestors has. The search goes along the MRO,
  which starts with the class itself, and gives the first symbol found.
\<close>

fun get_in_mro :: "state \<Rightarrow> string list \<Rightarrow> string \<Rightarrow> symbol option" where
  "get_in_mro st [] name = None"
| "get_in_mro st (c # cs) name =
     (case lookup_typeinfo st c of
        None \<Rightarrow> get_in_mro st cs name
      | Some info \<Rightarrow>
          (case map_of (names info) name of
             Some found \<Rightarrow> Some found
           | None \<Rightarrow> get_in_mro st cs name))"

definition info_get :: "state \<Rightarrow> string \<Rightarrow> symbol option" where
  "info_get st name =
     (case map_of (names (cls_info st)) name of
        Some found \<Rightarrow> Some found
      | None \<Rightarrow> get_in_mro st (mro (cls_info st)) name)"

definition has_readable_member :: "state \<Rightarrow> string \<Rightarrow> bool" where
  "has_readable_member st name = (info_get st name \<noteq> None)"

text \<open>
  Modelled from the spec: \<^verbatim>\<open>api.fail(msg, ctx)\<close> and \<^verbatim>\<open>api.defer()\<close> belong to the
  host analyzer, which "provides a \<^verbatim>\<open>reportDiagnostic(message, location)\<close> call" and "a
  \<^verbatim>\<open>requestAnotherPass()\<close> call".
\<close>

definition api_fail :: "string \<Rightarrow> err_context \<Rightarrow> state \<Rightarrow> state" where
  "api_fail msg c st = st\<lparr>errors := errors st @ [(msg, c)]\<rparr>"

definition api_defer :: "state \<Rightarrow> state" where
  "api_defer st = st\<lparr>deferred := True\<rparr>"

section \<open>InjectAnyAsBaseForNestedMeta\<close>

text \<open>
  Modelled from the spec: \<^verbatim>\<open>helpers.get_nested_meta_node_for_current_class\<close> is not
  part of the file; it gives the declaration's nested options sub-declaration, if any.
\<close>

definition get_nested_meta_node_for_current_class :: "typeinfo \<Rightarrow> meta_node option" where
  "get_nested_meta_node_for_current_class info = nested_meta info"

definition InjectAnyAsBaseForNestedMeta_run :: "state \<Rightarrow> unit outcome" where
  "InjectAnyAsBaseForNestedMeta_run st =
     (case get_nested_meta_node_for_current_class (cls_info st) of
        None \<Rightarrow> (Inr (), st)
      | Some meta_node \<Rightarrow>
          (Inr (), st\<lparr>cls_info := (cls_info st)\<lparr>nested_meta :=
                        Some (meta_node\<lparr>fallback_to_any := True\<rparr>)\<rparr>\<rparr>))"

section \<open>AddDefaultPrimaryKey\<close>

definition AddDefaultPrimaryKey_run_with_model_cls :: "env \<Rightarrow> model_cls \<Rightarrow> state \<Rightarrow> unit outcome" where
  "AddDefaultPrimaryKey_run_with_model_cls e model_cls st =
     (case auto_field model_cls of
        None \<Rightarrow> (Inr (), st)
      | Some af \<Rightarrow>
          if \<not> has_readable_member st (attname af) then
            (let auto_field_fullname = get_class_fullname (field_class af) in
             case lookup_typeinfo_or_incomplete_defn_error st auto_field_fullname of
               Inl exc \<Rightarrow> (Inl exc, st)
             | Inr auto_field_info \<Rightarrow>
                 (case get_field_descriptor_types e auto_field_fullname False of
                    (set_type, get_type) \<Rightarrow>
                      (Inr (), add_new_node_to_model_class (attname af)
                         (InstanceT (Instance auto_field_fullname [set_type, get_type])) st)))
          else (Inr (), st))"

section \<open>AddRelatedModelsId\<close>

text \<open>
  \<^verbatim>\<open>repr\<close> of a string that needs no escaping, as in \<^verbatim>\<open>{field.name!r}\<close>.
\<close>

definition py_repr :: "string \<Rightarrow> string" where
  "py_repr s = [CHR 0x27] @ s @ [CHR 0x27]"

definition cannot_find_model_msg :: "field \<Rightarrow> string" where
  "cannot_find_model_msg f =
     ''Cannot find model '' @ related_model_repr f @
     '' referenced in field '' @ py_repr (field_name f) @ '' ''"

definition field_error_context :: "state \<Rightarrow> field \<Rightarrow> err_context" where
  "field_error_context st f =
     (case info_get st (field_name f) of
        Some (SymbolTableNode (Some n)) \<Rightarrow> NodeContext n
      | _ \<Rightarrow> ClassDefContext)"

fun AddRelatedModelsId_loop :: "env \<Rightarrow> field list \<Rightarrow> state \<Rightarrow> unit outcome" where
  "AddRelatedModelsId_loop e [] st = (Inr (), st)"
| "AddRelatedModelsId_loop e (f # fs) st =
     (if is_ForeignKey f then
        (case get_field_related_model_cls e f of
           None \<Rightarrow>
             AddRelatedModelsId_loop e fs
               (add_new_node_to_model_class (attname f) (AnyType TypeOfAny_explicit)
                  (api_fail (cannot_find_model_msg f) (field_error_context st f) st))
         | Some related_model_cls \<Rightarrow>
             if abstract related_model_cls then AddRelatedModelsId_loop e fs st
             else
               (let rel_primary_key_field = get_primary_key_field e related_model_cls in
                case lookup_class_typeinfo_or_incomplete_defn_error st
                       (field_class rel_primary_key_field) of
                  Inl exc \<Rightarrow>
                    if \<not> final_iteration st then (Inl exc, st)
                    else AddRelatedModelsId_loop e fs st
                | Inr field_info \<Rightarrow>
                    (let is_nullable = get_field_nullability e f in
                     case get_field_descriptor_types e
                            (get_class_fullname (field_class rel_primary_key_field)) is_nullable of
                       (set_type, get_type) \<Rightarrow>
                         AddRelatedModelsId_loop e fs
                           (add_new_node_to_model_class (attname f)
                              (InstanceT (Instance
                                 (get_class_fullname (field_class rel_primary_key_field))
                                 [set_type, get_type])) st))))
      else AddRelatedModelsId_loop e fs st)"

definition AddRelatedModelsId_run_with_model_cls :: "env \<Rightarrow> model_cls \<Rightarrow> state \<Rightarrow> unit outcome" where
  "AddRelatedModelsId_run_with_model_cls e model_cls st =
     AddRelatedModelsId_loop e (get_fields model_cls) st"

section \<open>AddManagers\<close>

definition is_any_parametrized_manager :: "env \<Rightarrow> inst \<Rightarrow> error + bool" where
  "is_any_parametrized_manager e typ =
     (if inst_type typ \<in> set (MANAGER_CLASSES e) then
        (case inst_args typ of
           [] \<Rightarrow> Inl IndexError
         | a # _ \<Rightarrow> Inr (case a of AnyType _ \<Rightarrow> True | _ \<Rightarrow> False))
      else Inr False)"

text \<open>
  Modelled from the spec: \<^verbatim>\<open>helpers.iter_bases\<close> is not part of the file; the
  Managers step asks whether the manager's type has a placeholder-parametrized generic
  manager among the bases of the type or of one of its ancestors. The ancestors are
  those of the type's MRO.
\<close>

definition iter_bases :: "state \<Rightarrow> typeinfo \<Rightarrow> inst list" where
  "iter_bases st info =
     bases info @
     concat (map (\<lambda>c. case lookup_typeinfo st c of None \<Rightarrow> [] | Some a \<Rightarrow> bases a) (mro info))"

fun any_parametrized_manager_in :: "env \<Rightarrow> inst list \<Rightarrow> error + bool" where
  "any_parametrized_manager_in e [] = Inr False"
| "any_parametrized_manager_in e (base # rest) =
     (case is_any_parametrized_manager e base of
        Inl exc \<Rightarrow> Inl exc
      | Inr True \<Rightarrow> Inr True
      | Inr False \<Rightarrow> any_parametrized_manager_in e rest)"

definition has_any_parametrized_manager_as_base :: "env \<Rightarrow> state \<Rightarrow> typeinfo \<Rightarrow> error + bool" where
  "has_any_parametrized_manager_as_base e st info =
     any_parametrized_manager_in e (iter_bases st info)"

definition get_generated_manager_mappings :: "state \<Rightarrow> string \<Rightarrow> (string \<times> string) list" where
  "get_generated_manager_mappings st base_manager_fullname =
     (case lookup_typeinfo st base_manager_fullname of
        None \<Rightarrow> []
      | Some base_manager_info \<Rightarrow>
          (case from_queryset_managers base_manager_info of
             None \<Rightarrow> []
           | Some d \<Rightarrow> d))"

text \<open>
  Modelled from the spec: \<^verbatim>\<open>helpers.reparametrize_instance\<close> is not part of the
  file; the Class Forge "replaces the placeholder" of a generic base with the new arguments.
\<close>

definition reparametrize_instance :: "inst \<Rightarrow> mtype list \<Rightarrow> inst" where
  "reparametrize_instance i new_args = Instance (inst_type i) new_args"

text \<open>
  The first loop of \<^verbatim>\<open>create_new_model_parametrized_manager\<close>. The test
  \<^verbatim>\<open>original_base.type is None\<close> comes after \<^verbatim>\<open>is_any_parametrized_manager\<close>
  has read \<^verbatim>\<open>typ.type.fullname\<close>, and an \<^verbatim>\<open>Instance\<close> always has a type, so
  its branch is never taken.
\<close>

fun parametrized_bases :: "env \<Rightarrow> string \<Rightarrow> inst list \<Rightarrow> error + inst list" where
  "parametrized_bases e model [] = Inr []"
| "parametrized_bases e model (original_base # rest) =
     (case is_any_parametrized_manager e original_base of
        Inl exc \<Rightarrow> Inl exc
      | Inr p \<Rightarrow>
          (case parametrized_bases e model rest of
             Inl exc \<Rightarrow> Inl exc
           | Inr bs \<Rightarrow>
               Inr ((if p then reparametrize_instance original_base [InstanceT (Instance model [])]
                     else original_base) # bs)))"

text \<open>
  Modelled from the spec: \<^verbatim>\<open>helpers.add_new_class_for_module\<close> is not part of the
  file; the Class Forge "allocates a new type under the module owner, with the computed
  base list". The helper asks \<^verbatim>\<open>gen_unique_name\<close> for a name that the module's symbol
  table does not have yet, so a name that is taken gets a number appended. The module's
  symbol table is the types known under the module's name, so the search is made on full
  names. The new type has no members yet and resolves under the module's name, a dot and
  the name found; its ancestors are its bases' types and their ancestors.
\<close>

definition new_class_mro :: "state \<Rightarrow> inst list \<Rightarrow> string list" where
  "new_class_mro st bs =
     remdups (concat (map (\<lambda>b. inst_type b #
        (case lookup_typeinfo st (inst_type b) of None \<Rightarrow> [] | Some a \<Rightarrow> mro a)) bs))"

text \<open>
  The new type as it is allocated, and its registration under the module: the helper
  returns the new \<^verbatim>\<open>TypeInfo\<close>, here with the full name it resolves under.
\<close>

definition new_class_info :: "state \<Rightarrow> string \<Rightarrow> inst list \<Rightarrow> typeinfo" where
  "new_class_info st module bs =
     \<lparr>names = [], bases = bs, mro = new_class_mro st bs, info_module_name = module,
      from_queryset_managers = None, nested_meta = None\<rparr>"

definition add_new_class_for_module ::
    "string \<Rightarrow> string \<Rightarrow> inst list \<Rightarrow> state \<Rightarrow> (string \<times> typeinfo) \<times> state" where
  "add_new_class_for_module module name bs st =
     (let new_class_unique_name =
            gen_unique_name (module @ ''.'' @ name) (cls_fullname st # map fst (types st));
          new_typeinfo = new_class_info st module bs
      in ((new_class_unique_name, new_typeinfo),
          st\<lparr>types := AList.update new_class_unique_name new_typeinfo (types st)\<rparr>))"

text \<open>
  Modelled from the spec: \<^verbatim>\<open>helpers.copy_method_to_another_class\<close> is not part of the
  file; a method of the template is "duplicated onto the new type with its receiver
  type rebound to the new type instantiated with the target model".
\<close>

definition copy_method_to_another_class ::
    "string \<Rightarrow> mtype \<Rightarrow> string \<Rightarrow> argument list \<Rightarrow> mtype \<Rightarrow> typeinfo \<Rightarrow> typeinfo" where
  "copy_method_to_another_class owner self_type new_method_name arguments return_type info =
     info\<lparr>names := AList.update new_method_name
        (SymbolTableNode (Some (FuncDef (owner @ ''.'' @ new_method_name) self_type
           arguments return_type))) (names info)\<rparr>"

text \<open>
  The second loop of \<^verbatim>\<open>create_new_model_parametrized_manager\<close>, over the template's
  symbols. It fills the symbol table of the new type, which the analyzer already knows;
  the function ends by storing the filled type under the new type's name.
\<close>

fun copy_names :: "string \<Rightarrow> mtype \<Rightarrow> (string \<times> symbol) list \<Rightarrow> typeinfo \<Rightarrow> typeinfo" where
  "copy_names owner custom_manager_type [] info = info"
| "copy_names owner custom_manager_type ((name, s) # rest) info =
     copy_names owner custom_manager_type rest
       (case sym_node s of
          Some (FuncDef _ _ arguments return_type) \<Rightarrow>
            copy_method_to_another_class owner custom_manager_type name arguments return_type info
        | Some (Var _ t) \<Rightarrow>
            info\<lparr>names := AList.update name
               (SymbolTableNode (Some (Var (owner @ ''.'' @ name) t))) (names info)\<rparr>
        | _ \<Rightarrow> info\<lparr>names := AList.update name s (names info)\<rparr>)"

definition create_new_model_parametrized_manager ::
    "env \<Rightarrow> string \<Rightarrow> typeinfo \<Rightarrow> state \<Rightarrow> inst outcome" where
  "create_new_model_parametrized_manager e name base_manager_info st =
     (case parametrized_bases e (cls_fullname st) (bases base_manager_info) of
        Inl exc \<Rightarrow> (Inl exc, st)
      | Inr bs \<Rightarrow>
          (let module = info_module_name (cls_info st) in
           if module \<notin> set (modules st) then (Inl KeyError, st)
           else
             (case add_new_class_for_module module name bs st of
                ((owner, new_typeinfo), st1) \<Rightarrow>
                  (let custom_manager_type =
                         Instance owner [InstanceT (Instance (cls_fullname st) [])];
                       custom_manager_info =
                         copy_names owner (InstanceT custom_manager_type)
                           (names base_manager_info) new_typeinfo
                   in (Inr custom_manager_type,
                       st1\<lparr>types := AList.update owner custom_manager_info (types st1)\<rparr>)))))"

text \<open>
  \<^verbatim>\<open>s.rsplit('.', maxsplit=1)[1]\<close>: what follows the last dot, an \<^verbatim>\<open>IndexError\<close>
  when there is no dot.
\<close>

definition rsplit_dot_1 :: "string \<Rightarrow> error + string" where
  "rsplit_dot_1 s =
     (if CHR ''.'' \<in> set s then Inr (rev (takeWhile (\<lambda>c. c \<noteq> CHR ''.'') (rev s)))
      else Inl IndexError)"

text \<open>
  The \<^verbatim>\<open>try\<close> statement at the head of the loop body of
  \<^verbatim>\<open>AddManagers.run_with_model_cls\<close>: \<open>Inr None\<close> is its \<^verbatim>\<open>continue\<close>, and
  \<open>Inr (Some (fullname, info, class_name))\<close> the manager type the rest of the body works
  with, under the name it resolved by.
\<close>

definition resolve_manager_info :: "state \<Rightarrow> manager \<Rightarrow> error + (string \<times> typeinfo \<times> string) option" where
  "resolve_manager_info st manager =
     (let manager_class_name = klass_name (manager_class manager);
          manager_fullname = get_class_fullname (manager_class manager) in
      case lookup_typeinfo_or_incomplete_defn_error st manager_fullname of
        Inr manager_info \<Rightarrow> Inr (Some (manager_fullname, manager_info, manager_class_name))
      | Inl exc \<Rightarrow>
          if \<not> final_iteration st then Inl exc
          else
            (let base_manager_fullname = get_class_fullname (manager_class_base manager);
                 generated_managers = get_generated_manager_mappings st base_manager_fullname in
             case map_of generated_managers manager_fullname of
               None \<Rightarrow> Inr None
             | Some real_manager_fullname \<Rightarrow>
                 (case lookup_typeinfo st real_manager_fullname of
                    None \<Rightarrow> Inr None
                  | Some manager_info \<Rightarrow>
                      (case rsplit_dot_1 real_manager_fullname of
                         Inl exc' \<Rightarrow> Inl exc'
                       | Inr real_class_name \<Rightarrow>
                           Inr (Some (real_manager_fullname, manager_info, real_class_name))))))"

text \<open>
  The \<^verbatim>\<open>if\<close> statement that ends the loop body: \<open>Inr ()\<close> goes on with the next
  manager, \<open>Inl\<close> is an exception that leaves the loop.
\<close>

definition add_manager_node ::
    "env \<Rightarrow> string \<Rightarrow> manager \<Rightarrow> string \<Rightarrow> typeinfo \<Rightarrow> string \<Rightarrow> state \<Rightarrow> unit outcome" where
  "add_manager_node e manager_name manager manager_fullname manager_info manager_class_name st =
     (if map_of (names (cls_info st)) manager_name = None then
        (Inr (), add_new_node_to_model_class manager_name
           (InstanceT (Instance manager_fullname [InstanceT (Instance (cls_fullname st) [])])) st)
      else
        (case has_any_parametrized_manager_as_base e st manager_info of
           Inl exc \<Rightarrow> (Inl exc, st)
         | Inr False \<Rightarrow> (Inr (), st)
         | Inr True \<Rightarrow>
             (let custom_model_manager_name = manager_model_name manager @ ''_'' @ manager_class_name in
              case create_new_model_parametrized_manager e custom_model_manager_name manager_info st of
                (Inl IncompleteDefnException, st') \<Rightarrow> (Inr (), st')
              | (Inl exc, st') \<Rightarrow> (Inl exc, st')
              | (Inr custom_manager_type, st') \<Rightarrow>
                  (Inr (), add_new_node_to_model_class manager_name
                     (InstanceT custom_manager_type) st'))))"

fun AddManagers_loop :: "env \<Rightarrow> (string \<times> manager) list \<Rightarrow> state \<Rightarrow> unit outcome" where
  "AddManagers_loop e [] st = (Inr (), st)"
| "AddManagers_loop e ((manager_name, manager) # rest) st =
     (case resolve_manager_info st manager of
        Inl exc \<Rightarrow> (Inl exc, st)
      | Inr None \<Rightarrow> AddManagers_loop e rest st
      | Inr (Some (manager_fullname, manager_info, manager_class_name)) \<Rightarrow>
          (case add_manager_node e manager_name manager manager_fullname manager_info
                  manager_class_name st of
             (Inl exc, st') \<Rightarrow> (Inl exc, st')
           | (Inr _, st') \<Rightarrow> AddManagers_loop e rest st'))"

definition AddManagers_run_with_model_cls :: "env \<Rightarrow> model_cls \<Rightarrow> state \<Rightarrow> unit outcome" where
  "AddManagers_run_with_model_cls e model_cls st =
     AddManagers_loop e (managers_map model_cls) st"

section \<open>AddDefaultManagerAttribute\<close>

definition AddDefaultManagerAttribute_run_with_model_cls :: "env \<Rightarrow> model_cls \<Rightarrow> state \<Rightarrow> unit outcome" where
  "AddDefaultManagerAttribute_run_with_model_cls e model_cls st =
     (if map_of (names (cls_info st)) ''_default_manager'' = None then
        (let default_manager_fullname =
               get_class_fullname (manager_class (default_manager model_cls)) in
         case lookup_typeinfo_or_incomplete_defn_error st default_manager_fullname of
           Inl exc \<Rightarrow> (Inl exc, st)
         | Inr default_manager_info \<Rightarrow>
             (Inr (), add_new_node_to_model_class ''_default_manager''
                (InstanceT (Instance default_manager_fullname
                   [InstanceT (Instance (cls_fullname st) [])])) st))
      else (Inr (), st))"

section \<open>AddRelatedManagers\<close>

fun AddRelatedManagers_loop :: "env \<Rightarrow> relation list \<Rightarrow> state \<Rightarrow> unit outcome" where
  "AddRelatedManagers_loop e [] st = (Inr (), st)"
| "AddRelatedManagers_loop e (relation # rest) st =
     (case get_accessor_name relation of
        None \<Rightarrow> AddRelatedManagers_loop e rest st
      | Some accessor \<Rightarrow>
          (case get_relation_related_model_cls e relation of
             None \<Rightarrow> AddRelatedManagers_loop e rest st
           | Some related_model_cls \<Rightarrow>
               (case lookup_class_typeinfo_or_incomplete_defn_error st
                       (model_class related_model_cls) of
                  Inl exc \<Rightarrow>
                    if \<not> final_iteration st then (Inl exc, st)
                    else AddRelatedManagers_loop e rest st
                | Inr related_model_info \<Rightarrow>
                    (let related_model = Instance (get_class_fullname (model_class related_model_cls)) [] in
                     if rel_kind relation = OneToOneRel then
                       AddRelatedManagers_loop e rest
                         (add_new_node_to_model_class accessor (InstanceT related_model) st)
                     else if rel_kind relation = ManyToOneRel \<or> rel_kind relation = ManyToManyRel then
                       (case lookup_typeinfo_or_incomplete_defn_error st (RELATED_MANAGER_CLASS e) of
                          Inl exc \<Rightarrow>
                            if \<not> final_iteration st then (Inl exc, st)
                            else AddRelatedManagers_loop e rest st
                        | Inr manager_info \<Rightarrow>
                            AddRelatedManagers_loop e rest
                              (add_new_node_to_model_class accessor
                                 (InstanceT (Instance (RELATED_MANAGER_CLASS e)
                                    [InstanceT related_model])) st))
                     else AddRelatedManagers_loop e rest st))))"

definition AddRelatedManagers_run_with_model_cls :: "env \<Rightarrow> model_cls \<Rightarrow> state \<Rightarrow> unit outcome" where
  "AddRelatedManagers_run_with_model_cls e model_cls st =
     AddRelatedManagers_loop e (get_model_relations e model_cls) st"

section \<open>AddExtraFieldMethods\<close>

text \<open>
  Modelled from the spec: \<^verbatim>\<open>common.add_method\<close> belongs to mypy and is not part of the
  file; the step "synthesizes a method" of the given name, arguments and return type on
  the declaration. Its receiver is the declaration's own type. When the declaration has a
  symbol of that name already, the helper keeps it under the name that
  \<^verbatim>\<open>get_unique_redefinition_name\<close> gives, and then binds the name to the new method.
  The statements of the class body, which the helper also edits, are not part of the
  model.
\<close>

definition add_method :: "string \<Rightarrow> argument list \<Rightarrow> mtype \<Rightarrow> state \<Rightarrow> state" where
  "add_method name arguments return_type st =
     (let info = cls_info st;
          func = FuncDef (cls_fullname st @ ''.'' @ name)
                   (InstanceT (Instance (cls_fullname st) [])) arguments return_type;
          kept = (case map_of (names info) name of
                    None \<Rightarrow> names info
                  | Some existing \<Rightarrow>
                      AList.update (get_unique_redefinition_name name (map fst (names info)))
                        existing (names info))
      in st\<lparr>cls_info := info\<lparr>names :=
            AList.update name (SymbolTableNode (Some func)) kept\<rparr>\<rparr>)"

text \<open>Python's truth value of \<^verbatim>\<open>field.choices\<close>: neither \<^verbatim>\<open>None\<close> nor empty.\<close>

definition has_choices :: "field \<Rightarrow> bool" where
  "has_choices f = (case choices f of None \<Rightarrow> False | Some [] \<Rightarrow> False | Some (_ # _) \<Rightarrow> True)"

definition display_method_name :: "field \<Rightarrow> string" where
  "display_method_name f = ''get_'' @ attname f @ ''_display''"

fun get_FOO_display_loop :: "field list \<Rightarrow> state \<Rightarrow> unit outcome" where
  "get_FOO_display_loop [] st = (Inr (), st)"
| "get_FOO_display_loop (f # fs) st =
     (if has_choices f then
        (case lookup_typeinfo_or_incomplete_defn_error st ''builtins.str'' of
           Inl exc \<Rightarrow> (Inl exc, st)
         | Inr info \<Rightarrow>
             get_FOO_display_loop fs
               (add_method (display_method_name f) []
                  (InstanceT (Instance ''builtins.str'' [])) st))
      else get_FOO_display_loop fs st)"

definition kwargs_argument :: argument where
  "kwargs_argument = Argument ''kwargs'' (AnyType TypeOfAny_explicit) ARG_STAR2"

fun get_next_previous_by_loop :: "field list \<Rightarrow> state \<Rightarrow> state" where
  "get_next_previous_by_loop [] st = st"
| "get_next_previous_by_loop (f # fs) st =
     (if is_DateField f \<and> \<not> field_null f then
        (let return_type = InstanceT (Instance (cls_fullname st) []) in
         get_next_previous_by_loop fs
           (add_method (''get_previous_by_'' @ attname f) [kwargs_argument] return_type
              (add_method (''get_next_by_'' @ attname f) [kwargs_argument] return_type st)))
      else get_next_previous_by_loop fs st)"

definition AddExtraFieldMethods_run_with_model_cls :: "env \<Rightarrow> model_cls \<Rightarrow> state \<Rightarrow> unit outcome" where
  "AddExtraFieldMethods_run_with_model_cls e model_cls st =
     (case get_FOO_display_loop (get_model_fields e model_cls) st of
        (Inl exc, st') \<Rightarrow> (Inl exc, st')
      | (Inr _, st') \<Rightarrow> (Inr (), get_next_previous_by_loop (get_model_fields e model_cls) st'))"

section \<open>AddMetaOptionsAttribute\<close>

definition AddMetaOptionsAttribute_run_with_model_cls :: "env \<Rightarrow> model_cls \<Rightarrow> state \<Rightarrow> unit outcome" where
  "AddMetaOptionsAttribute_run_with_model_cls e model_cls st =
     (if map_of (names (cls_info st)) ''_meta'' = None then
        (case lookup_typeinfo_or_incomplete_defn_error st (OPTIONS_CLASS_FULLNAME e) of
           Inl exc \<Rightarrow> (Inl exc, st)
         | Inr options_info \<Rightarrow>
             (Inr (), add_new_node_to_model_class ''_meta''
                (InstanceT (Instance (OPTIONS_CLASS_FULLNAME e)
                   [InstanceT (Instance (cls_fullname st) [])])) st))
      else (Inr (), st))"

section \<open>process_model_class\<close>

datatype initializer =
    InjectAnyAsBaseForNestedMeta
  | AddDefaultPrimaryKey
  | AddRelatedModelsId
  | AddManagers
  | AddDefaultManagerAttribute
  | AddRelatedManagers
  | AddExtraFieldMethods
  | AddMetaOptionsAttribute

definition initializers :: "initializer list" where
  "initializers =
     [InjectAnyAsBaseForNestedMeta, AddDefaultPrimaryKey, AddRelatedModelsId, AddManagers,
      AddDefaultManagerAttribute, AddRelatedManagers, AddExtraFieldMethods,
      AddMetaOptionsAttribute]"

text \<open>\<^verbatim>\<open>initializer_cls(ctx, django_context).run()\<close>\<close>

fun run_initializer :: "env \<Rightarrow> initializer \<Rightarrow> state \<Rightarrow> unit outcome" where
  "run_initializer e InjectAnyAsBaseForNestedMeta st = InjectAnyAsBaseForNestedMeta_run st"
| "run_initializer e AddDefaultPrimaryKey st = run e AddDefaultPrimaryKey_run_with_model_cls st"
| "run_initializer e AddRelatedModelsId st = run e AddRelatedModelsId_run_with_model_cls st"
| "run_initializer e AddManagers st = run e AddManagers_run_with_model_cls st"
| "run_initializer e AddDefaultManagerAttribute st =
     run e AddDefaultManagerAttribute_run_with_model_cls st"
| "run_initializer e AddRelatedManagers st = run e AddRelatedManagers_run_with_model_cls st"
| "run_initializer e AddExtraFieldMethods st = run e AddExtraFieldMethods_run_with_model_cls st"
| "run_initializer e AddMetaOptionsAttribute st =
     run e AddMetaOptionsAttribute_run_with_model_cls st"

text \<open>
  The loop of \<^verbatim>\<open>process_model_class\<close>: an \<^verbatim>\<open>IncompleteDefnException\<close> is caught at
  each step, any other exception leaves the function.
\<close>

fun process_loop :: "env \<Rightarrow> initializer list \<Rightarrow> state \<Rightarrow> unit outcome" where
  "process_loop e [] st = (Inr (), st)"
| "process_loop e (initializer_cls # rest) st =
     (case run_initializer e initializer_cls st of
        (Inr _, st') \<Rightarrow> process_loop e rest st'
      | (Inl IncompleteDefnException, st') \<Rightarrow>
          process_loop e rest (if \<not> final_iteration st' then api_defer st' else st')
      | (Inl exc, st') \<Rightarrow> (Inl exc, st'))"

definition process_model_class :: "env \<Rightarrow> state \<Rightarrow> unit outcome" where
  "process_model_class e st = process_loop e initializers st"
section \<open>Sample declarations\<close>

text \<open>
  A model \<^verbatim>\<open>Book\<close> of the application \<^verbatim>\<open>myapp\<close>: an automatic primary key, a foreign
  key to \<^verbatim>\<open>Author\<close>, a foreign key to a model that does not exist, a field with choices,
  a manager inherited from an abstract base whose class derives from
  \<^verbatim>\<open>models.Manager\<close>, and four reverse relations, one of them without an accessor name.
\<close>

definition AutoField_class :: klass where
  "AutoField_class = \<lparr>klass_name = ''AutoField'', get_class_fullname = ''fields.AutoField''\<rparr>"

definition CharField_class :: klass where
  "CharField_class = \<lparr>klass_name = ''CharField'', get_class_fullname = ''fields.CharField''\<rparr>"

definition ForeignKey_class :: klass where
  "ForeignKey_class = \<lparr>klass_name = ''ForeignKey'', get_class_fullname = ''related.ForeignKey''\<rparr>"

definition Manager_class :: klass where
  "Manager_class = \<lparr>klass_name = ''Manager'', get_class_fullname = ''manager.Manager''\<rparr>"

definition BookManager_class :: klass where
  "BookManager_class = \<lparr>klass_name = ''BookManager'', get_class_fullname = ''myapp.BookManager''\<rparr>"

definition id_field :: field where
  "id_field = \<lparr>field_name = ''id'', attname = ''id'', field_class = AutoField_class,
     is_ForeignKey = False, related_model_repr = ''None'', choices = None,
     is_DateField = False, field_null = False\<rparr>"

definition uuid_field :: field where
  "uuid_field = \<lparr>field_name = ''uuid'', attname = ''uuid'',
     field_class = \<lparr>klass_name = ''UUIDField'', get_class_fullname = ''fields.UUIDField''\<rparr>,
     is_ForeignKey = False, related_model_repr = ''None'', choices = None,
     is_DateField = False, field_null = False\<rparr>"

definition review_field :: field where
  "review_field = \<lparr>field_name = ''review'', attname = ''review_id'', field_class = ForeignKey_class,
     is_ForeignKey = True, related_model_repr = ''<class Review>'', choices = None,
     is_DateField = False, field_null = False\<rparr>"

definition author_field :: field where
  "author_field = \<lparr>field_name = ''author'', attname = ''author_id'', field_class = ForeignKey_class,
     is_ForeignKey = True, related_model_repr = ''<class Author>'', choices = None,
     is_DateField = False, field_null = False\<rparr>"

definition publisher_field :: field where
  "publisher_field = \<lparr>field_name = ''publisher'', attname = ''publisher_id'',
     field_class = ForeignKey_class, is_ForeignKey = True,
     related_model_repr = py_repr ''myapp.Publisher'', choices = None,
     is_DateField = False, field_null = True\<rparr>"

definition genre_field :: field where
  "genre_field = \<lparr>field_name = ''genre'', attname = ''genre'', field_class = CharField_class,
     is_ForeignKey = False, related_model_repr = ''None'',
     choices = Some [(''A'', ''Alpha''), (''B'', ''Beta'')],
     is_DateField = False, field_null = False\<rparr>"

definition title_field :: field where
  "title_field = \<lparr>field_name = ''title'', attname = ''title'', field_class = CharField_class,
     is_ForeignKey = False, related_model_repr = ''None'', choices = None,
     is_DateField = False, field_null = False\<rparr>"

definition book_manager :: manager where
  "book_manager = \<lparr>manager_class = BookManager_class, manager_class_base = Manager_class,
     manager_model_name = ''Book''\<rparr>"

definition Author_model :: model_cls where
  "Author_model = \<lparr>model_class = \<lparr>klass_name = ''Author'', get_class_fullname = ''myapp.Author''\<rparr>,
     abstract = False, auto_field = Some id_field, get_fields = [id_field],
     managers_map = [], default_manager = book_manager\<rparr>"

definition Review_model :: model_cls where
  "Review_model = \<lparr>model_class = \<lparr>klass_name = ''Review'', get_class_fullname = ''myapp.Review''\<rparr>,
     abstract = False, auto_field = Some id_field, get_fields = [id_field],
     managers_map = [], default_manager = book_manager\<rparr>"

definition Book_model :: model_cls where
  "Book_model = \<lparr>model_class = \<lparr>klass_name = ''Book'', get_class_fullname = ''myapp.Book''\<rparr>,
     abstract = False, auto_field = Some id_field,
     get_fields = [id_field, author_field, publisher_field, genre_field, title_field],
     managers_map = [(''objects'', book_manager)], default_manager = book_manager\<rparr>"

definition review_set_rel :: relation where
  "review_set_rel = \<lparr>get_accessor_name = Some ''review_set'', rel_kind = ManyToOneRel\<rparr>"

definition tags_rel :: relation where
  "tags_rel = \<lparr>get_accessor_name = Some ''tags'', rel_kind = ManyToManyRel\<rparr>"

definition cover_rel :: relation where
  "cover_rel = \<lparr>get_accessor_name = Some ''cover'', rel_kind = OneToOneRel\<rparr>"

definition hidden_rel :: relation where
  "hidden_rel = \<lparr>get_accessor_name = None, rel_kind = ManyToOneRel\<rparr>"

definition int_type :: mtype where
  "int_type = InstanceT (Instance ''builtins.int'' [])"

definition sample_env :: env where
  "sample_env = \<lparr>
     get_model_class_by_fullname = (\<lambda>n. if n = ''myapp.Book'' then Some Book_model else None),
     get_field_related_model_cls =
       (\<lambda>f. if field_name f = ''author'' then Some Author_model
            else if field_name f = ''review'' then Some Review_model else None),
     get_relation_related_model_cls = (\<lambda>r. Some Review_model),
     get_primary_key_field =
       (\<lambda>m. if klass_name (model_class m) = ''Review'' then uuid_field else id_field),
     get_field_nullability = field_null,
     get_model_relations = (\<lambda>m. [hidden_rel, cover_rel, review_set_rel, tags_rel]),
     get_model_fields = get_fields,
     get_field_descriptor_types = (\<lambda>n nullable. (int_type, int_type)),
     MANAGER_CLASSES = [''manager.Manager'', ''manager.BaseManager''],
     RELATED_MANAGER_CLASS = ''manager.RelatedManager'',
     OPTIONS_CLASS_FULLNAME = ''options.Options''\<rparr>"

definition plain_info :: typeinfo where
  "plain_info = \<lparr>names = [], bases = [], mro = [], info_module_name = ''lib'',
     from_queryset_managers = None, nested_meta = None\<rparr>"

definition BookManager_info :: typeinfo where
  "BookManager_info = \<lparr>
     names = [(''bestsellers'', SymbolTableNode (Some (FuncDef ''myapp.BookManager.bestsellers''
                 (InstanceT (Instance ''myapp.BookManager'' [])) [] (OtherType ''QuerySet'')))),
              (''use_in_migrations'', SymbolTableNode (Some (Var ''myapp.BookManager.use_in_migrations''
                 (InstanceT (Instance ''builtins.bool'' [])))))],
     bases = [Instance ''manager.Manager'' [AnyType TypeOfAny_special_form]],
     mro = [''manager.Manager''], info_module_name = ''myapp'',
     from_queryset_managers = None, nested_meta = None\<rparr>"

definition Book_info :: typeinfo where
  "Book_info = \<lparr>
     names = [(''author'', SymbolTableNode (Some (Var ''myapp.Book.author'' (OtherType ''ForeignKey'')))),
              (''publisher'', SymbolTableNode (Some (Var ''myapp.Book.publisher'' (OtherType ''ForeignKey'')))),
              (''genre'', SymbolTableNode (Some (Var ''myapp.Book.genre'' (OtherType ''CharField''))))],
     bases = [Instance ''base.Model'' []],
     mro = [''base.Model''], info_module_name = ''myapp'',
     from_queryset_managers = None, nested_meta = Some \<lparr>fallback_to_any = False\<rparr>\<rparr>"

definition sample_types :: "(string \<times> typeinfo) list" where
  "sample_types =
     [(''fields.AutoField'', plain_info), (''builtins.str'', plain_info),
      (''manager.RelatedManager'', plain_info), (''options.Options'', plain_info),
      (''manager.Manager'', plain_info), (''base.Model'', plain_info),
      (''myapp.BookManager'', BookManager_info), (''myapp.Author'', plain_info),
      (''myapp.Review'', plain_info)]"

definition sample_state :: state where
  "sample_state = \<lparr>cls_fullname = ''myapp.Book'', cls_info = Book_info, types = sample_types,
     modules = [''builtins'', ''myapp''], errors = [], deferred = False, final_iteration = False\<rparr>"

text \<open>The same declaration under a name for which Django has no model class.\<close>

definition abstract_state :: state where
  "abstract_state = sample_state\<lparr>cls_fullname := ''myapp.AbstractBook''\<rparr>"

text \<open>
  Variants: the model with other fields, among them a foreign key to \<^verbatim>\<open>Review\<close>, whose
  primary key is of a class the analyzer does not know; the analyzer without the type of
  \<^verbatim>\<open>Review\<close>, and without the manager's class.
\<close>

definition env_with_fields :: "field list \<Rightarrow> env" where
  "env_with_fields fs = sample_env\<lparr>get_model_class_by_fullname :=
     (\<lambda>n. if n = ''myapp.Book'' then Some (Book_model\<lparr>get_fields := fs\<rparr>) else None)\<rparr>"

definition state_without :: "string \<Rightarrow> state" where
  "state_without n = sample_state\<lparr>types := AList.delete n (types sample_state)\<rparr>"

text \<open>
  A foreign key that Django added by itself, so that the declaration has no symbol of its
  name, and whose related model does not exist.
\<close>

definition base_ptr_field :: field where
  "base_ptr_field = \<lparr>field_name = ''base_ptr'', attname = ''base_ptr_id'',
     field_class = ForeignKey_class, is_ForeignKey = True,
     related_model_repr = py_repr ''myapp.Base'', choices = None,
     is_DateField = False, field_null = False\<rparr>"

text \<open>
  A manager of a class made by \<^verbatim>\<open>from_queryset\<close>: the class itself is unknown to the
  analyzer, and the type of its first base remembers under which name the class is known.
\<close>

definition generated_manager :: manager where
  "generated_manager = \<lparr>
     manager_class = \<lparr>klass_name = ''ManagerFromBookQuerySet'',
                      get_class_fullname = ''manager.ManagerFromBookQuerySet''\<rparr>,
     manager_class_base = BookManager_class, manager_model_name = ''Book''\<rparr>"

definition env_with_managers :: "(string \<times> manager) list \<Rightarrow> env" where
  "env_with_managers ms = sample_env\<lparr>get_model_class_by_fullname :=
     (\<lambda>n. if n = ''myapp.Book'' then Some (Book_model\<lparr>managers_map := ms\<rparr>) else None)\<rparr>"

definition generated_state :: state where
  "generated_state = sample_state\<lparr>types :=
     AList.update ''myapp.NewManager'' plain_info
       (AList.update ''myapp.BookManager'' (BookManager_info\<lparr>from_queryset_managers :=
           Some [(''manager.ManagerFromBookQuerySet'', ''myapp.NewManager'')]\<rparr>)
          (types sample_state))\<rparr>"

text \<open>The declaration with the manager written in its body.\<close>

definition declared_manager_state :: state where
  "declared_manager_state = sample_state\<lparr>cls_info := Book_info\<lparr>names :=
     names Book_info @
     [(''objects'', SymbolTableNode (Some (Var ''myapp.Book.objects''
         (InstanceT (Instance ''myapp.BookManager'' [])))))]\<rparr>\<rparr>"

text \<open>A manager of the class \<^verbatim>\<open>models.Manager\<close> itself, and the model with all its fields resolvable.\<close>

definition plain_manager :: manager where
  "plain_manager = \<lparr>manager_class = Manager_class,
     manager_class_base = \<lparr>klass_name = ''BaseManager'', get_class_fullname = ''manager.BaseManager''\<rparr>,
     manager_model_name = ''Book''\<rparr>"

definition resolved_env :: env where
  "resolved_env = env_with_fields [id_field, author_field, title_field]"

text \<open>
  A date field that cannot be null, and the model with the manager of the class
  \<^verbatim>\<open>models.Manager\<close>, the field with choices and the date field.
\<close>

definition published_field :: field where
  "published_field = \<lparr>field_name = ''published'', attname = ''published'',
     field_class = \<lparr>klass_name = ''DateField'', get_class_fullname = ''fields.DateField''\<rparr>,
     is_ForeignKey = False, related_model_repr = ''None'', choices = None,
     is_DateField = True, field_null = False\<rparr>"

definition plain_env :: "field list \<Rightarrow> env" where
  "plain_env fs = sample_env\<lparr>get_model_class_by_fullname :=
     (\<lambda>n. if n = ''myapp.Book'' then
            Some (Book_model\<lparr>get_fields := fs, managers_map := [(''objects'', plain_manager)],
                     default_manager := plain_manager\<rparr>)
          else None)\<rparr>"

text \<open>A foreign key with choices: its \<^verbatim>\<open>attname\<close> is not its name.\<close>

definition author_choice_field :: field where
  "author_choice_field = author_field\<lparr>choices := Some [(''1'', ''Ann''), (''2'', ''Bob'')]\<rparr>"

text \<open>
  A manager whose class derives from \<^verbatim>\<open>BookManager\<close>, so that the placeholder instance
  of \<^verbatim>\<open>models.Manager\<close> is a base of an ancestor and not of the class itself; and a
  manager whose class has, after the placeholder instance, a base that instantiates a
  generic manager class with no type argument at all.
\<close>

definition SubManager_info :: typeinfo where
  "SubManager_info = \<lparr>
     names = [(''recent'', SymbolTableNode (Some (FuncDef ''myapp.SubManager.recent''
                 (InstanceT (Instance ''myapp.SubManager'' [])) [] (OtherType ''QuerySet''))))],
     bases = [Instance ''myapp.BookManager'' []],
     mro = [''myapp.BookManager'', ''manager.Manager''], info_module_name = ''myapp'',
     from_queryset_managers = None, nested_meta = None\<rparr>"

definition sub_manager :: manager where
  "sub_manager = \<lparr>
     manager_class = \<lparr>klass_name = ''SubManager'', get_class_fullname = ''myapp.SubManager''\<rparr>,
     manager_class_base = BookManager_class, manager_model_name = ''Book''\<rparr>"

definition BareManager_info :: typeinfo where
  "BareManager_info = \<lparr>names = [],
     bases = [Instance ''manager.Manager'' [AnyType TypeOfAny_special_form],
              Instance ''manager.BaseManager'' []],
     mro = [''manager.Manager'', ''manager.BaseManager''], info_module_name = ''myapp'',
     from_queryset_managers = None, nested_meta = None\<rparr>"

definition bare_manager :: manager where
  "bare_manager = \<lparr>
     manager_class = \<lparr>klass_name = ''BareManager'', get_class_fullname = ''myapp.BareManager''\<rparr>,
     manager_class_base = Manager_class, manager_model_name = ''Book''\<rparr>"

definition more_managers_state :: state where
  "more_managers_state = declared_manager_state\<lparr>types :=
     AList.update ''myapp.BareManager'' BareManager_info
       (AList.update ''myapp.SubManager'' SubManager_info (types declared_manager_state))\<rparr>"

text \<open>The model with an automatic primary key of another name.\<close>

definition objects_field :: field where
  "objects_field = id_field\<lparr>field_name := ''objects'', attname := ''objects''\<rparr>"

definition env_with_auto_field :: "field \<Rightarrow> env" where
  "env_with_auto_field f = sample_env\<lparr>get_model_class_by_fullname :=
     (\<lambda>n. if n = ''myapp.Book'' then Some (Book_model\<lparr>auto_field := Some f\<rparr>) else None)\<rparr>"



text \<open>The declaration in a module that the analyzer has not loaded.\<close>

definition unloaded_state :: state where
  "unloaded_state = declared_manager_state\<lparr>modules := [''builtins'']\<rparr>"

text \<open>The model with the foreign key that has choices among its fields.\<close>

definition choices_env :: env where
  "choices_env = env_with_fields [id_field, author_choice_field, genre_field, title_field]"
section \<open>What no step writes\<close>

definition same_pass :: "state \<Rightarrow> state \<Rightarrow> bool" where
  "same_pass s t \<longleftrightarrow> final_iteration t = final_iteration s \<and> cls_fullname t = cls_fullname s"


section \<open>Steps as lists of writes to the symbol table\<close>

text \<open>
  What a run of the pipeline does to the declaration's symbol table is described by a list
  of writes: a name is bound to a symbol, or bound to it unless the name is bound already.
\<close>

datatype wr = Assign string symbol | AssignIfAbsent string symbol

fun apply_write :: "wr \<Rightarrow> (string \<Rightarrow> symbol option) \<Rightarrow> (string \<Rightarrow> symbol option)" where
  "apply_write (Assign k v) m = m(k \<mapsto> v)"
| "apply_write (AssignIfAbsent k v) m = (if m k = None then m(k \<mapsto> v) else m)"

definition apply_writes :: "wr list \<Rightarrow> (string \<Rightarrow> symbol option) \<Rightarrow> (string \<Rightarrow> symbol option)" where
  "apply_writes ws m = fold apply_write ws m"



text \<open>The declaration's symbol table as a map.\<close>

definition symbols :: "state \<Rightarrow> string \<Rightarrow> symbol option" where
  "symbols st = map_of (names (cls_info st))"

text \<open>
  Two states of one pass over one declaration that differ at most in the declaration's
  symbol table and nested \<^verbatim>\<open>Meta\<close>, in the diagnostics reported and in whether another
  pass was asked for.
\<close>

definition same_frame :: "state \<Rightarrow> state \<Rightarrow> bool" where
  "same_frame s t \<longleftrightarrow>
     cls_fullname t = cls_fullname s \<and> types t = types s \<and>
     final_iteration t = final_iteration s \<and>
     bases (cls_info t) = bases (cls_info s) \<and> mro (cls_info t) = mro (cls_info s) \<and>
     from_queryset_managers (cls_info t) = from_queryset_managers (cls_info s)"


text \<open>An exception that \<^verbatim>\<open>process_model_class\<close> does not catch.\<close>

definition fatal :: "error + unit \<Rightarrow> bool" where
  "fatal r \<longleftrightarrow> (case r of Inl IncompleteDefnException \<Rightarrow> False | Inl _ \<Rightarrow> True | Inr _ \<Rightarrow> False)"






section \<open>Basic facts\<close>

lemmas sample_defs = sample_state_def sample_env_def sample_types_def Book_info_def
  BookManager_info_def plain_info_def Book_model_def Author_model_def Review_model_def
  book_manager_def id_field_def author_field_def publisher_field_def genre_field_def
  title_field_def AutoField_class_def CharField_class_def ForeignKey_class_def
  Manager_class_def BookManager_class_def review_set_rel_def tags_rel_def cover_rel_def
  hidden_rel_def int_type_def abstract_state_def uuid_field_def review_field_def
  env_with_fields_def state_without_def base_ptr_field_def generated_manager_def
  env_with_managers_def generated_state_def declared_manager_state_def
  plain_manager_def resolved_env_def objects_field_def env_with_auto_field_def
  published_field_def plain_env_def author_choice_field_def SubManager_info_def
  sub_manager_def BareManager_info_def bare_manager_def more_managers_state_def
  unloaded_state_def choices_env_def

lemmas step_defs = run_def lookup_typeinfo_def lookup_typeinfo_or_incomplete_defn_error_def
  lookup_class_typeinfo_or_incomplete_defn_error_def add_new_node_to_model_class_def
  add_new_sym_for_info_def api_fail_def api_defer_def has_readable_member_def info_get_def
  AddDefaultPrimaryKey_run_with_model_cls_def AddRelatedModelsId_run_with_model_cls_def
  AddManagers_run_with_model_cls_def AddDefaultManagerAttribute_run_with_model_cls_def
  AddRelatedManagers_run_with_model_cls_def AddExtraFieldMethods_run_with_model_cls_def
  AddMetaOptionsAttribute_run_with_model_cls_def InjectAnyAsBaseForNestedMeta_run_def
  get_nested_meta_node_for_current_class_def field_error_context_def cannot_find_model_msg_def
  py_repr_def

lemma run_no_model:
  "get_model_class_by_fullname e (cls_fullname st) = None \<Longrightarrow> run e f st = (Inr (), st)"
  by (simp add: run_def)

lemma run_model:
  "get_model_class_by_fullname e (cls_fullname st) = Some m \<Longrightarrow> run e f st = f e m st"
  by (simp add: run_def)

lemma InjectAny_names:
  "names (cls_info (snd (InjectAnyAsBaseForNestedMeta_run st))) = names (cls_info st)"
  by (simp add: InjectAnyAsBaseForNestedMeta_run_def get_nested_meta_node_for_current_class_def
      split: option.splits)

lemma InjectAny_result:
  "InjectAnyAsBaseForNestedMeta_run st =
     (Inr (), st\<lparr>cls_info := (cls_info st)\<lparr>nested_meta :=
        map_option (\<lambda>m. m\<lparr>fallback_to_any := True\<rparr>) (nested_meta (cls_info st))\<rparr>\<rparr>)"
  by (simp add: InjectAnyAsBaseForNestedMeta_run_def get_nested_meta_node_for_current_class_def
      split: option.splits)

lemma filter_update_absent:
  "map_of al k = None \<Longrightarrow> filter (\<lambda>p. fst p = k) (AList.update k v al) = [(k, v)]"
  by (induction al) (auto split: if_splits)

lemma not_readable_absent:
  "\<not> has_readable_member st k \<Longrightarrow> map_of (names (cls_info st)) k = None"
  by (auto simp: has_readable_member_def info_get_def split: option.splits)

lemma names_add_new_node:
  "map_of (names (cls_info (add_new_node_to_model_class k t st))) =
     (map_of (names (cls_info st)))(k \<mapsto> SymbolTableNode (Some (Var (cls_fullname st @ ''.'' @ k) t)))"
  by (simp add: add_new_node_to_model_class_def add_new_sym_for_info_def AList.update_conv')

lemma cls_fullname_add_method [simp]: "cls_fullname (add_method k a r st) = cls_fullname st"
  by (simp add: add_method_def Let_def)

subsection \<open>The pass and the declaration's name are never written\<close>

lemma same_pass_refl [simp]: "same_pass s s"
  by (simp add: same_pass_def)

lemma same_pass_trans: "same_pass s t \<Longrightarrow> same_pass t u \<Longrightarrow> same_pass s u"
  by (simp add: same_pass_def)

lemma same_pass_add_new_node [simp]: "same_pass s (add_new_node_to_model_class k v t) = same_pass s t"
  by (simp add: same_pass_def add_new_node_to_model_class_def)

lemma same_pass_api_fail [simp]: "same_pass s (api_fail msg c t) = same_pass s t"
  by (simp add: same_pass_def api_fail_def)

lemma same_pass_api_defer [simp]: "same_pass s (api_defer t) = same_pass s t"
  by (simp add: same_pass_def api_defer_def)

lemma same_pass_add_method [simp]: "same_pass s (add_method k a r t) = same_pass s t"
  by (simp add: same_pass_def add_method_def Let_def)

lemma same_pass_add_new_class [simp]:
  "same_pass s (snd (add_new_class_for_module m n bs t)) = same_pass s t"
  by (simp add: same_pass_def add_new_class_for_module_def Let_def)

lemma same_pass_AddRelatedModelsId_loop:
  "same_pass s st \<Longrightarrow> AddRelatedModelsId_loop e fs st = (r, st') \<Longrightarrow> same_pass s st'"
proof (induction fs arbitrary: st)
  case Nil
  then show ?case by simp
next
  case (Cons f fs)
  from Cons.prems show ?case
    by (auto simp: Let_def split: if_splits option.splits sum.splits prod.splits
        dest!: Cons.IH [rotated])
qed

lemma same_pass_create_new_manager:
  "create_new_model_parametrized_manager e n i st = (r, st') \<Longrightarrow> same_pass s st' = same_pass s st"
  by (auto simp: create_new_model_parametrized_manager_def add_new_class_for_module_def
      same_pass_def Let_def split: sum.splits if_splits prod.splits)

lemma same_pass_add_manager_node:
  "add_manager_node e n mgr fn i cn st = (r, st') \<Longrightarrow> same_pass s st' = same_pass s st"
  by (auto simp: add_manager_node_def Let_def
      split: sum.splits if_splits bool.splits prod.splits error.splits
      dest: same_pass_create_new_manager [where s = s])

lemma same_pass_AddManagers_loop:
  "same_pass s st \<Longrightarrow> AddManagers_loop e ms st = (r, st') \<Longrightarrow> same_pass s st'"
proof (induction ms arbitrary: st)
  case Nil
  then show ?case by simp
next
  case (Cons p ms)
  obtain n mgr where p: "p = (n, mgr)" by (cases p)
  from Cons.prems show ?case
    unfolding p
    by (auto split: sum.splits option.splits prod.splits
        dest!: Cons.IH [rotated] dest: same_pass_add_manager_node [where s = s])
qed

lemma same_pass_AddRelatedManagers_loop:
  "same_pass s st \<Longrightarrow> AddRelatedManagers_loop e rs st = (r, st') \<Longrightarrow> same_pass s st'"
proof (induction rs arbitrary: st)
  case Nil
  then show ?case by simp
next
  case (Cons x rs)
  from Cons.prems show ?case
    by (auto simp: Let_def split: if_splits option.splits sum.splits
        dest!: Cons.IH [rotated])
qed

lemma same_pass_get_FOO_display_loop:
  "same_pass s st \<Longrightarrow> get_FOO_display_loop fs st = (r, st') \<Longrightarrow> same_pass s st'"
proof (induction fs arbitrary: st)
  case Nil
  then show ?case by simp
next
  case (Cons f fs)
  from Cons.prems show ?case
    by (auto split: if_splits sum.splits dest!: Cons.IH [rotated])
qed

lemma same_pass_get_next_previous_by_loop:
  "same_pass s (get_next_previous_by_loop fs st) = same_pass s st"
  by (induction fs arbitrary: st) (auto simp: Let_def)

lemma same_pass_run_initializer:
  assumes "run_initializer e i st = (r, st')"
  shows "same_pass st st'"
proof (cases "get_model_class_by_fullname e (cls_fullname st)")
  case None
  with assms show ?thesis
    by (cases i) (auto simp: run_no_model InjectAny_result same_pass_def)
next
  case (Some m)
  show ?thesis
  proof (cases i)
    case InjectAnyAsBaseForNestedMeta
    with assms show ?thesis by (auto simp: InjectAny_result same_pass_def)
  next
    case AddDefaultPrimaryKey
    with assms Some show ?thesis
      by (auto simp: run_model AddDefaultPrimaryKey_run_with_model_cls_def Let_def
          split: option.splits if_splits sum.splits prod.splits)
  next
    case AddRelatedModelsId
    with assms Some show ?thesis
      by (auto simp: run_model AddRelatedModelsId_run_with_model_cls_def
          intro: same_pass_AddRelatedModelsId_loop [OF same_pass_refl])
  next
    case AddManagers
    with assms Some show ?thesis
      by (auto simp: run_model AddManagers_run_with_model_cls_def
          intro: same_pass_AddManagers_loop [OF same_pass_refl])
  next
    case AddDefaultManagerAttribute
    with assms Some show ?thesis
      by (auto simp: run_model AddDefaultManagerAttribute_run_with_model_cls_def Let_def
          split: if_splits sum.splits)
  next
    case AddRelatedManagers
    with assms Some show ?thesis
      by (auto simp: run_model AddRelatedManagers_run_with_model_cls_def
          intro: same_pass_AddRelatedManagers_loop [OF same_pass_refl])
  next
    case AddExtraFieldMethods
    with assms Some show ?thesis
      by (auto simp: run_model AddExtraFieldMethods_run_with_model_cls_def
          same_pass_get_next_previous_by_loop
          split: prod.splits sum.splits
          intro: same_pass_get_FOO_display_loop [OF same_pass_refl])
  next
    case AddMetaOptionsAttribute
    with assms Some show ?thesis
      by (auto simp: run_model AddMetaOptionsAttribute_run_with_model_cls_def
          split: if_splits sum.splits)
  qed
qed

subsection \<open>Iterating over a concatenation\<close>

lemma process_loop_append:
  "process_loop e (xs @ ys) st =
     (case process_loop e xs st of
        (Inr u, st') \<Rightarrow> process_loop e ys st'
      | (Inl exc, st') \<Rightarrow> (Inl exc, st'))"
  by (induction xs arbitrary: st) (auto split: prod.splits sum.splits error.splits)

lemma AddRelatedModelsId_loop_append:
  "AddRelatedModelsId_loop e (xs @ ys) st =
     (case AddRelatedModelsId_loop e xs st of
        (Inr u, st') \<Rightarrow> AddRelatedModelsId_loop e ys st'
      | (Inl exc, st') \<Rightarrow> (Inl exc, st'))"
  by (induction xs arbitrary: st)
     (auto simp: Let_def split: prod.splits sum.splits option.splits)

lemma AddManagers_loop_append:
  "AddManagers_loop e (xs @ ys) st =
     (case AddManagers_loop e xs st of
        (Inr u, st') \<Rightarrow> AddManagers_loop e ys st'
      | (Inl exc, st') \<Rightarrow> (Inl exc, st'))"
  by (induction xs arbitrary: st)
     (auto split: prod.splits sum.splits option.splits)

lemma AddRelatedManagers_loop_append:
  "AddRelatedManagers_loop e (xs @ ys) st =
     (case AddRelatedManagers_loop e xs st of
        (Inr u, st') \<Rightarrow> AddRelatedManagers_loop e ys st'
      | (Inl exc, st') \<Rightarrow> (Inl exc, st'))"
  by (induction xs arbitrary: st)
     (auto simp: Let_def split: prod.splits sum.splits option.splits)

subsection \<open>Exceptions of the manager step\<close>

lemma is_any_parametrized_manager_error:
  "is_any_parametrized_manager e b = Inl exc \<Longrightarrow> exc = IndexError"
  by (auto simp: is_any_parametrized_manager_def split: if_splits list.splits)

lemma parametrized_bases_error:
  "parametrized_bases e m bs = Inl exc \<Longrightarrow> exc = IndexError"
  by (induction bs arbitrary: exc)
     (auto split: sum.splits dest: is_any_parametrized_manager_error)

lemma any_parametrized_manager_in_error:
  "any_parametrized_manager_in e bs = Inl exc \<Longrightarrow> exc = IndexError"
  by (induction bs) (auto split: sum.splits bool.splits dest: is_any_parametrized_manager_error)

lemma create_new_manager_raises:
  "create_new_model_parametrized_manager e n i st = (Inl exc, st') \<Longrightarrow>
     st' = st \<and> exc \<noteq> IncompleteDefnException"
  by (auto simp: create_new_model_parametrized_manager_def Let_def
      split: sum.splits if_splits prod.splits dest: parametrized_bases_error)

lemma add_manager_node_raises:
  "add_manager_node e n mgr fn i cn st = (Inl exc, st') \<Longrightarrow>
     st' = st \<and> exc \<noteq> IncompleteDefnException"
  by (auto simp: add_manager_node_def has_any_parametrized_manager_as_base_def Let_def
      split: if_splits sum.splits bool.splits prod.splits error.splits
      dest: any_parametrized_manager_in_error create_new_manager_raises)

lemma resolve_manager_info_raises:
  "resolve_manager_info st mgr = Inl IncompleteDefnException \<Longrightarrow> \<not> final_iteration st"
  by (auto simp: resolve_manager_info_def rsplit_dot_1_def Let_def
      split: sum.splits if_splits option.splits)

lemma AddManagers_item_raises:
  "AddManagers_loop e [(n, mgr)] st = (Inl IncompleteDefnException, st') \<Longrightarrow>
     st' = st \<and> \<not> final_iteration st"
  by (auto split: sum.splits option.splits prod.splits
      dest: add_manager_node_raises resolve_manager_info_raises)

subsection \<open>The forged manager type\<close>


lemma copy_names_bases [simp]: "bases (copy_names owner t syms info) = bases info"
proof (induction syms arbitrary: info)
  case Nil
  then show ?case by simp
next
  case (Cons p syms)
  obtain k s where p: "p = (k, s)" by (cases p)
  show ?case
    unfolding p
    by (simp add: Cons.IH copy_method_to_another_class_def split: option.splits node.splits)
qed





subsection \<open>Names that are not taken\<close>








subsection \<open>Forging\<close>


subsection \<open>Lists of writes are idempotent\<close>








lemma apply_writes_Nil [simp]: "apply_writes [] m = m"
  by (simp add: apply_writes_def)

lemma apply_writes_Cons [simp]: "apply_writes (w # ws) m = apply_writes ws (apply_write w m)"
  by (simp add: apply_writes_def)


subsection \<open>The frame of a pass\<close>


lemma same_frame_sym: "same_frame s t \<Longrightarrow> same_frame t s"
  by (simp add: same_frame_def)

lemma same_frame_trans: "same_frame s t \<Longrightarrow> same_frame t u \<Longrightarrow> same_frame s u"
  by (simp add: same_frame_def)

lemma same_frame_add_new_node [simp]:
  "same_frame s (add_new_node_to_model_class k v t) = same_frame s t"
  by (simp add: same_frame_def add_new_node_to_model_class_def add_new_sym_for_info_def)

lemma same_frame_api_fail [simp]: "same_frame s (api_fail msg c t) = same_frame s t"
  by (simp add: same_frame_def api_fail_def)

lemma same_frame_api_defer [simp]: "same_frame s (api_defer t) = same_frame s t"
  by (simp add: same_frame_def api_defer_def)

lemma same_frame_add_method [simp]: "same_frame s (add_method k a r t) = same_frame s t"
  by (simp add: same_frame_def add_method_def Let_def)


lemma symbols_api_fail [simp]: "symbols (api_fail msg c st) = symbols st"
  by (simp add: symbols_def api_fail_def)

lemma symbols_api_defer [simp]: "symbols (api_defer st) = symbols st"
  by (simp add: symbols_def api_defer_def)

lemma cls_fullname_api_fail [simp]: "cls_fullname (api_fail msg c st) = cls_fullname st"
  by (simp add: api_fail_def)



lemma frame_lookup_None:
  "same_frame s t \<Longrightarrow> (lookup_typeinfo t n = None) = (lookup_typeinfo s n = None)"
  by (simp add: same_frame_def lookup_typeinfo_def)

lemma frame_lookup_or_error:
  "same_frame s t \<Longrightarrow>
     (lookup_typeinfo_or_incomplete_defn_error t n = Inl exc) =
     (lookup_typeinfo s n = None \<and> exc = IncompleteDefnException)"
  using frame_lookup_None [of s t n]
  by (auto simp: lookup_typeinfo_or_incomplete_defn_error_def split: option.splits)

lemma lookup_or_error_cases:
  obtains "lookup_typeinfo st n = None"
     "lookup_typeinfo_or_incomplete_defn_error st n = Inl IncompleteDefnException"
  | info where "lookup_typeinfo st n = Some info"
     "lookup_typeinfo_or_incomplete_defn_error st n = Inr info"
  by (cases "lookup_typeinfo st n") (auto simp: lookup_typeinfo_or_incomplete_defn_error_def)









subsection \<open>Building the writes of a function\<close>





subsection \<open>The writes of each step\<close>











lemma fatal_simps [simp]:
  "\<not> fatal (Inr u)" "\<not> fatal (Inl IncompleteDefnException)"
  "fatal (Inl IndexError)" "fatal (Inl KeyError)"
  by (simp_all add: fatal_def)










section \<open>The controller and an unresolved dependency\<close>

lemma same_pass_process_loop:
  "same_pass s st \<Longrightarrow> process_loop e is st = (r, st') \<Longrightarrow> same_pass s st'"
proof (induction "is" arbitrary: st)
  case Nil
  then show ?case by simp
next
  case (Cons i "is")
  obtain r1 st1 where step: "run_initializer e i st = (r1, st1)"
    by (cases "run_initializer e i st")
  have st1: "same_pass s st1"
    using same_pass_trans [OF Cons.prems(1) same_pass_run_initializer [OF step]] .
  from Cons.prems(2) step st1 show ?case
    by (auto split: sum.splits error.splits if_splits
        intro: Cons.IH [of st1] Cons.IH [of "api_defer st1"])
qed

text \<open>
  C1, as the code has it. Let a step of the pipeline raise
  \<^verbatim>\<open>IncompleteDefnException\<close>, having brought the analyzer from \<open>st\<close> to \<open>st'\<close>. The
  pass is still the one the pipeline started in. If it is not final, the controller
  calls \<^verbatim>\<open>defer\<close> and runs the remaining steps from \<open>st'\<close>; if it is final, it runs the
  remaining steps from \<open>st'\<close> as it is. In both cases what the failing step had written
  before it raised stays, and the handler reports no diagnostic and leaves the declaration
  alone.
\<close>

theorem process_model_class_unresolved_step:
  assumes "initializers = pre @ i # rest"
    and "process_loop e pre st0 = (Inr (), st)"
    and "run_initializer e i st = (Inl IncompleteDefnException, st')"
  shows "final_iteration st' = final_iteration st0 \<and>
         (\<not> final_iteration st0 \<longrightarrow>
            process_model_class e st0 = process_loop e rest (api_defer st')) \<and>
         (final_iteration st0 \<longrightarrow> process_model_class e st0 = process_loop e rest st') \<and>
         deferred (api_defer st') \<and> errors (api_defer st') = errors st' \<and>
         cls_info (api_defer st') = cls_info st' \<and> types (api_defer st') = types st'"
proof -
  have "same_pass st0 st"
    using same_pass_process_loop [OF same_pass_refl assms(2)] .
  then have "same_pass st0 st'"
    using same_pass_run_initializer [OF assms(3)] by (rule same_pass_trans)
  then have fin: "final_iteration st' = final_iteration st0"
    by (simp add: same_pass_def)
  have "process_model_class e st0 =
          process_loop e rest (if \<not> final_iteration st' then api_defer st' else st')"
    by (simp add: process_model_class_def assms process_loop_append)
  with fin show ?thesis
    by (simp add: api_defer_def)
qed

theorem process_model_class_unresolved_step_witness:
  "initializers = [InjectAnyAsBaseForNestedMeta] @ AddDefaultPrimaryKey #
     [AddRelatedModelsId, AddManagers, AddDefaultManagerAttribute, AddRelatedManagers,
      AddExtraFieldMethods, AddMetaOptionsAttribute] \<and>
   \<not> final_iteration (state_without ''fields.AutoField'') \<and>
   process_model_class sample_env (state_without ''fields.AutoField'') =
     process_loop sample_env
       [AddRelatedModelsId, AddManagers, AddDefaultManagerAttribute, AddRelatedManagers,
        AddExtraFieldMethods, AddMetaOptionsAttribute]
       (api_defer (snd (InjectAnyAsBaseForNestedMeta_run (state_without ''fields.AutoField'')))) \<and>
   final_iteration ((state_without ''fields.AutoField'')\<lparr>final_iteration := True\<rparr>) \<and>
   process_model_class sample_env ((state_without ''fields.AutoField'')\<lparr>final_iteration := True\<rparr>) =
     process_loop sample_env
       [AddRelatedModelsId, AddManagers, AddDefaultManagerAttribute, AddRelatedManagers,
        AddExtraFieldMethods, AddMetaOptionsAttribute]
       (snd (InjectAnyAsBaseForNestedMeta_run
          ((state_without ''fields.AutoField'')\<lparr>final_iteration := True\<rparr>)))"
proof -
  let ?s = "state_without ''fields.AutoField''"
  let ?f = "?s\<lparr>final_iteration := True\<rparr>"
  let ?rest = "[AddRelatedModelsId, AddManagers, AddDefaultManagerAttribute, AddRelatedManagers,
      AddExtraFieldMethods, AddMetaOptionsAttribute]"
  have split: "initializers = [InjectAnyAsBaseForNestedMeta] @ AddDefaultPrimaryKey # ?rest"
    by (simp add: initializers_def)
  have pre: "process_loop sample_env [InjectAnyAsBaseForNestedMeta] ?s =
               (Inr (), snd (InjectAnyAsBaseForNestedMeta_run ?s))"
    and pre': "process_loop sample_env [InjectAnyAsBaseForNestedMeta] ?f =
               (Inr (), snd (InjectAnyAsBaseForNestedMeta_run ?f))"
    by (simp_all add: InjectAny_result)
  have step: "run_initializer sample_env AddDefaultPrimaryKey (snd (InjectAnyAsBaseForNestedMeta_run ?s)) =
                (Inl IncompleteDefnException, snd (InjectAnyAsBaseForNestedMeta_run ?s))"
    and step': "run_initializer sample_env AddDefaultPrimaryKey (snd (InjectAnyAsBaseForNestedMeta_run ?f)) =
                (Inl IncompleteDefnException, snd (InjectAnyAsBaseForNestedMeta_run ?f))"
    by (simp_all add: sample_defs step_defs)
  have fin: "\<not> final_iteration ?s" "final_iteration ?f"
    by (simp_all add: sample_defs)
  show ?thesis
    using split fin
      process_model_class_unresolved_step [OF split pre step]
      process_model_class_unresolved_step [OF split pre' step']
    by simp
qed

theorem failing_step_keeps_earlier_writes:
  "\<not> final_iteration sample_state \<and>
   fst (run_initializer (env_with_fields [author_field, review_field, publisher_field])
          AddRelatedModelsId sample_state) = Inl IncompleteDefnException \<and>
   map_of (names (cls_info sample_state)) ''author_id'' = None \<and>
   map_of (names (cls_info (snd (run_initializer
      (env_with_fields [author_field, review_field, publisher_field])
      AddRelatedModelsId sample_state)))) ''author_id'' =
     Some (SymbolTableNode (Some (Var ''myapp.Book.author_id''
       (InstanceT (Instance ''fields.AutoField'' [int_type, int_type])))))"
  by (simp add: sample_defs step_defs)

section \<open>A foreign key whose related model does not exist\<close>

text \<open>
  C2, as the code has it. When the loop of \<^verbatim>\<open>AddRelatedModelsId\<close> comes to a foreign
  key \<open>f\<close> for which Django knows no related model, it reports exactly one diagnostic, gives
  the name \<open>attname f\<close> the type \<^verbatim>\<open>Any\<close>, raises nothing for this field and goes on with
  the fields that follow. The diagnostic is reported at the node of the symbol that the
  declaration, or one of its ancestors, has under the field's name; when there is no such
  symbol, or the symbol has no node, it is reported at the class definition.
\<close>

theorem missing_related_model:
  fixes e :: env and f :: field and fs :: "field list" and st :: state
  assumes "is_ForeignKey f" and "get_field_related_model_cls e f = None"
  defines "st1 \<equiv> add_new_node_to_model_class (attname f) (AnyType TypeOfAny_explicit)
                   (api_fail (cannot_find_model_msg f) (field_error_context st f) st)"
  shows "AddRelatedModelsId_loop e [f] st = (Inr (), st1) \<and>
         AddRelatedModelsId_loop e (f # fs) st = AddRelatedModelsId_loop e fs st1 \<and>
         errors st1 = errors st @ [(cannot_find_model_msg f, field_error_context st f)] \<and>
         map_of (names (cls_info st1)) =
           (map_of (names (cls_info st)))(attname f \<mapsto> SymbolTableNode (Some
              (Var (cls_fullname st @ ''.'' @ attname f) (AnyType TypeOfAny_explicit)))) \<and>
         (\<forall>n. info_get st (field_name f) = Some (SymbolTableNode (Some n)) \<longrightarrow>
              field_error_context st f = NodeContext n) \<and>
         (info_get st (field_name f) = None \<or>
          info_get st (field_name f) = Some (SymbolTableNode None) \<longrightarrow>
              field_error_context st f = ClassDefContext)"
  using assms(1,2) unfolding st1_def
  by (auto simp: field_error_context_def add_new_node_to_model_class_def api_fail_def
      add_new_sym_for_info_def AList.update_conv')

theorem missing_related_model_witness:
  "is_ForeignKey publisher_field \<and>
   get_field_related_model_cls sample_env publisher_field = None \<and>
   info_get sample_state (field_name publisher_field) =
     Some (SymbolTableNode (Some (Var ''myapp.Book.publisher'' (OtherType ''ForeignKey'')))) \<and>
   fst (AddRelatedModelsId_loop sample_env [publisher_field] sample_state) = Inr () \<and>
   errors (snd (AddRelatedModelsId_loop sample_env [publisher_field] sample_state)) =
     [(cannot_find_model_msg publisher_field,
       NodeContext (Var ''myapp.Book.publisher'' (OtherType ''ForeignKey'')))] \<and>
   map_of (names (cls_info (snd (AddRelatedModelsId_loop sample_env [publisher_field] sample_state))))
       ''publisher_id'' =
     Some (SymbolTableNode (Some (Var ''myapp.Book.publisher_id'' (AnyType TypeOfAny_explicit)))) \<and>
   is_ForeignKey base_ptr_field \<and>
   get_field_related_model_cls sample_env base_ptr_field = None \<and>
   info_get sample_state (field_name base_ptr_field) = None \<and>
   errors (snd (AddRelatedModelsId_loop sample_env [base_ptr_field] sample_state)) =
     [(cannot_find_model_msg base_ptr_field, ClassDefContext)]"
proof -
  have h1: "is_ForeignKey publisher_field"
    and h2: "get_field_related_model_cls sample_env publisher_field = None"
    by (simp_all add: sample_defs)
  have h3: "info_get sample_state (field_name publisher_field) =
     Some (SymbolTableNode (Some (Var ''myapp.Book.publisher'' (OtherType ''ForeignKey''))))"
    by (simp add: sample_defs info_get_def)
  have v: "errors sample_state = []" "attname publisher_field = ''publisher_id''"
    "cls_fullname sample_state = ''myapp.Book''"
    by (simp_all add: sample_defs)
  note t = missing_related_model [OF h1 h2, of sample_state "[]"]
  from t h3 have c: "field_error_context sample_state publisher_field =
      NodeContext (Var ''myapp.Book.publisher'' (OtherType ''ForeignKey''))"
    by blast
  have k1: "is_ForeignKey base_ptr_field"
    and k2: "get_field_related_model_cls sample_env base_ptr_field = None"
    by (simp_all add: sample_defs)
  have k3: "info_get sample_state (field_name base_ptr_field) = None"
    by (simp add: sample_defs info_get_def lookup_typeinfo_def)
  note u = missing_related_model [OF k1 k2, of sample_state "[]"]
  from u k3 have d: "field_error_context sample_state base_ptr_field = ClassDefContext"
    by blast
  from t u show ?thesis
    using h1 h2 h3 k1 k2 k3 by (simp add: c d v)
qed

theorem missing_related_model_counterexample:
  "is_ForeignKey base_ptr_field \<and>
   get_field_related_model_cls (env_with_fields [base_ptr_field]) base_ptr_field = None \<and>
   errors (snd (process_model_class (env_with_fields [base_ptr_field]) sample_state)) =
     [(cannot_find_model_msg base_ptr_field, ClassDefContext)] \<and>
   is_ForeignKey publisher_field \<and>
   get_field_related_model_cls (env_with_fields [review_field, publisher_field]) publisher_field = None \<and>
   fst (process_model_class (env_with_fields [review_field, publisher_field]) sample_state) = Inr () \<and>
   errors (snd (process_model_class (env_with_fields [review_field, publisher_field]) sample_state)) = [] \<and>
   map_of (names (cls_info (snd (process_model_class
      (env_with_fields [review_field, publisher_field]) sample_state)))) ''publisher_id'' = None"
  by code_simp

section \<open>Running the pipeline twice\<close>



section \<open>Forging a manager type for the model\<close>



section \<open>Steps on a declaration without a model class\<close>

text \<open>
  C5, as the code has it. When Django has no model class for the declaration, each of the
  seven steps that go through \<^verbatim>\<open>ModelClassInitializer.run\<close> returns at once and leaves
  the whole analyzer state as it was. \<^verbatim>\<open>InjectAnyAsBaseForNestedMeta\<close> overrides
  \<^verbatim>\<open>run\<close> and never asks for the model class: it leaves the symbol table unchanged too,
  but marks the nested options sub-declaration, when there is one, as permissive.
\<close>

theorem run_without_model_class:
  assumes "get_model_class_by_fullname e (cls_fullname st) = None"
  shows "(i \<noteq> InjectAnyAsBaseForNestedMeta \<longrightarrow> run_initializer e i st = (Inr (), st)) \<and>
         names (cls_info (snd (run_initializer e i st))) = names (cls_info st) \<and>
         nested_meta (cls_info (snd (run_initializer e InjectAnyAsBaseForNestedMeta st))) =
           map_option (\<lambda>m. m\<lparr>fallback_to_any := True\<rparr>) (nested_meta (cls_info st))"
  using assms by (cases i) (simp_all add: run_no_model InjectAny_names InjectAny_result)

theorem run_without_model_class_witness:
  "get_model_class_by_fullname sample_env (cls_fullname abstract_state) = None \<and>
   run_initializer sample_env AddManagers abstract_state = (Inr (), abstract_state) \<and>
   names (cls_info (snd (run_initializer sample_env AddManagers abstract_state))) =
     names (cls_info abstract_state) \<and>
   nested_meta (cls_info (snd (run_initializer sample_env InjectAnyAsBaseForNestedMeta abstract_state))) =
     Some \<lparr>fallback_to_any = True\<rparr>"
proof -
  have h: "get_model_class_by_fullname sample_env (cls_fullname abstract_state) = None"
    by (simp add: sample_defs)
  have m: "nested_meta (cls_info abstract_state) = Some \<lparr>fallback_to_any = False\<rparr>"
    by (simp add: sample_defs)
  show ?thesis
    using h run_without_model_class [OF h, of AddManagers] by (simp add: m)
qed

theorem nested_meta_changed_without_model_class:
  "get_model_class_by_fullname sample_env (cls_fullname abstract_state) = None \<and>
   nested_meta (cls_info abstract_state) = Some \<lparr>fallback_to_any = False\<rparr> \<and>
   nested_meta (cls_info (snd (run_initializer sample_env InjectAnyAsBaseForNestedMeta abstract_state))) =
     Some \<lparr>fallback_to_any = True\<rparr>"
  by (simp add: sample_defs InjectAny_result)

section \<open>AddDefaultPrimaryKey\<close>

text \<open>
  C6. Let the model have the automatic primary key \<open>af\<close>. If the declaration has no
  readable member named \<open>attname af\<close> and the class of \<open>af\<close> resolves, the step succeeds
  and the symbol table then has exactly one entry of that name: a variable of the
  field class's type, instantiated with the set and get types the oracle gives for that
  class with nullability false; every other name is as before. If the model has no
  automatic primary key, or the member is already readable, the step changes nothing.
\<close>

theorem AddDefaultPrimaryKey_synthesis:
  assumes "get_model_class_by_fullname e (cls_fullname st) = Some m"
  shows "(auto_field m = Some af \<and> \<not> has_readable_member st (attname af) \<and>
          lookup_typeinfo st (get_class_fullname (field_class af)) = Some info \<longrightarrow>
            (\<exists>st'. run_initializer e AddDefaultPrimaryKey st = (Inr (), st') \<and>
               filter (\<lambda>p. fst p = attname af) (names (cls_info st')) =
                 [(attname af, SymbolTableNode (Some (Var (cls_fullname st @ ''.'' @ attname af)
                    (InstanceT (Instance (get_class_fullname (field_class af))
                       [fst (get_field_descriptor_types e (get_class_fullname (field_class af)) False),
                        snd (get_field_descriptor_types e (get_class_fullname (field_class af)) False)])))))] \<and>
               (\<forall>k. k \<noteq> attname af \<longrightarrow>
                  map_of (names (cls_info st')) k = map_of (names (cls_info st)) k))) \<and>
         (auto_field m = None \<or> (auto_field m = Some af \<and> has_readable_member st (attname af)) \<longrightarrow>
            run_initializer e AddDefaultPrimaryKey st = (Inr (), st))"
  using assms not_readable_absent [of st "attname af"]
  by (auto simp: run_def AddDefaultPrimaryKey_run_with_model_cls_def
      lookup_typeinfo_or_incomplete_defn_error_def add_new_node_to_model_class_def
      add_new_sym_for_info_def filter_update_absent AList.update_conv' Let_def
      split: prod.splits)

theorem AddDefaultPrimaryKey_synthesis_witness:
  "get_model_class_by_fullname sample_env (cls_fullname sample_state) = Some Book_model \<and>
   auto_field Book_model = Some id_field \<and>
   \<not> has_readable_member sample_state (attname id_field) \<and>
   lookup_typeinfo sample_state (get_class_fullname (field_class id_field)) = Some plain_info \<and>
   (\<exists>st'. run_initializer sample_env AddDefaultPrimaryKey sample_state = (Inr (), st') \<and>
      filter (\<lambda>p. fst p = ''id'') (names (cls_info st')) =
        [(''id'', SymbolTableNode (Some (Var ''myapp.Book.id''
            (InstanceT (Instance ''fields.AutoField'' [int_type, int_type])))))]) \<and>
   has_readable_member declared_manager_state ''objects'' \<and>
   run_initializer (env_with_auto_field objects_field) AddDefaultPrimaryKey declared_manager_state =
     (Inr (), declared_manager_state)"
proof -
  have h1: "get_model_class_by_fullname sample_env (cls_fullname sample_state) = Some Book_model"
    by (simp add: sample_defs)
  have h2: "auto_field Book_model = Some id_field"
    by (simp add: Book_model_def)
  have h3: "\<not> has_readable_member sample_state (attname id_field)"
    by (simp add: sample_defs has_readable_member_def info_get_def lookup_typeinfo_def)
  have h4: "lookup_typeinfo sample_state (get_class_fullname (field_class id_field)) = Some plain_info"
    by (simp add: sample_defs lookup_typeinfo_def)
  have v: "attname id_field = ''id''" "cls_fullname sample_state = ''myapp.Book''"
    "get_class_fullname (field_class id_field) = ''fields.AutoField''"
    "get_field_descriptor_types sample_env ''fields.AutoField'' False = (int_type, int_type)"
    by (simp_all add: sample_defs)
  from AddDefaultPrimaryKey_synthesis [OF h1, of id_field plain_info] h2 h3 h4
  have "\<exists>st'. run_initializer sample_env AddDefaultPrimaryKey sample_state = (Inr (), st') \<and>
      filter (\<lambda>p. fst p = ''id'') (names (cls_info st')) =
        [(''id'', SymbolTableNode (Some (Var ''myapp.Book.id''
            (InstanceT (Instance ''fields.AutoField'' [int_type, int_type])))))]"
    unfolding v by auto
  moreover have k1: "get_model_class_by_fullname (env_with_auto_field objects_field)
      (cls_fullname declared_manager_state) = Some (Book_model\<lparr>auto_field := Some objects_field\<rparr>)"
    by (simp add: sample_defs)
  have k2: "auto_field (Book_model\<lparr>auto_field := Some objects_field\<rparr>) = Some objects_field"
    by simp
  have k3: "has_readable_member declared_manager_state (attname objects_field)"
    by (simp add: sample_defs has_readable_member_def info_get_def)
  have k4: "attname objects_field = ''objects''"
    by (simp add: sample_defs)
  from AddDefaultPrimaryKey_synthesis [OF k1, of objects_field] k2 k3
  have "run_initializer (env_with_auto_field objects_field) AddDefaultPrimaryKey declared_manager_state =
     (Inr (), declared_manager_state)"
    by blast
  ultimately show ?thesis
    using h1 h2 h3 h4 k3 [unfolded k4] by blast
qed

section \<open>AddRelatedManagers\<close>

text \<open>
  C7, as the code has it. A relation without an accessor name is passed over. For a
  relation with the accessor name \<open>a\<close> whose related model's type resolves: a one-to-one
  relation gives \<open>a\<close> the type of the related model; a many-to-one or many-to-many
  relation gives \<open>a\<close> the related-manager type, instantiated with the type of the related
  model, provided the related-manager type itself resolves. When it does not, nothing is
  added for the relation: on a pass that is not final the step raises, on the final pass
  the loop goes on with the next relation.
\<close>

theorem related_manager_dispatch:
  fixes e :: env and x :: relation and rest :: "relation list" and st :: state
  defines "related \<equiv> \<lambda>rm. InstanceT (Instance (get_class_fullname (model_class rm)) [])"
  shows "(get_accessor_name x = None \<longrightarrow>
            AddRelatedManagers_loop e (x # rest) st = AddRelatedManagers_loop e rest st) \<and>
         (get_accessor_name x = Some a \<and> get_relation_related_model_cls e x = Some rm \<and>
          lookup_typeinfo st (get_class_fullname (model_class rm)) = Some ri \<longrightarrow>
            (rel_kind x = OneToOneRel \<longrightarrow>
               AddRelatedManagers_loop e (x # rest) st =
                 AddRelatedManagers_loop e rest (add_new_node_to_model_class a (related rm) st) \<and>
               map_of (names (cls_info (add_new_node_to_model_class a (related rm) st))) a =
                 Some (SymbolTableNode (Some (Var (cls_fullname st @ ''.'' @ a) (related rm))))) \<and>
            ((rel_kind x = ManyToOneRel \<or> rel_kind x = ManyToManyRel) \<and>
             lookup_typeinfo st (RELATED_MANAGER_CLASS e) = Some mi \<longrightarrow>
               AddRelatedManagers_loop e (x # rest) st =
                 AddRelatedManagers_loop e rest (add_new_node_to_model_class a
                   (InstanceT (Instance (RELATED_MANAGER_CLASS e) [related rm])) st) \<and>
               map_of (names (cls_info (add_new_node_to_model_class a
                   (InstanceT (Instance (RELATED_MANAGER_CLASS e) [related rm])) st))) a =
                 Some (SymbolTableNode (Some (Var (cls_fullname st @ ''.'' @ a)
                   (InstanceT (Instance (RELATED_MANAGER_CLASS e) [related rm])))))) \<and>
            ((rel_kind x = ManyToOneRel \<or> rel_kind x = ManyToManyRel) \<and>
             lookup_typeinfo st (RELATED_MANAGER_CLASS e) = None \<longrightarrow>
               AddRelatedManagers_loop e (x # rest) st =
                 (if final_iteration st then AddRelatedManagers_loop e rest st
                  else (Inl IncompleteDefnException, st))))"
  unfolding related_def
  by (auto simp: names_add_new_node lookup_class_typeinfo_or_incomplete_defn_error_def
      lookup_typeinfo_or_incomplete_defn_error_def)

theorem related_manager_dispatch_witness:
  "get_accessor_name hidden_rel = None \<and>
   AddRelatedManagers_loop sample_env [hidden_rel] sample_state = (Inr (), sample_state) \<and>
   get_accessor_name cover_rel = Some ''cover'' \<and> rel_kind cover_rel = OneToOneRel \<and>
   get_relation_related_model_cls sample_env cover_rel = Some Review_model \<and>
   lookup_typeinfo sample_state (get_class_fullname (model_class Review_model)) = Some plain_info \<and>
   AddRelatedManagers_loop sample_env [cover_rel] sample_state =
     (Inr (), add_new_node_to_model_class ''cover'' (InstanceT (Instance ''myapp.Review'' []))
        sample_state) \<and>
   get_accessor_name tags_rel = Some ''tags'' \<and> rel_kind tags_rel = ManyToManyRel \<and>
   get_relation_related_model_cls sample_env tags_rel = Some Review_model \<and>
   lookup_typeinfo sample_state (RELATED_MANAGER_CLASS sample_env) = Some plain_info \<and>
   AddRelatedManagers_loop sample_env [tags_rel] sample_state =
     (Inr (), add_new_node_to_model_class ''tags''
        (InstanceT (Instance ''manager.RelatedManager'' [InstanceT (Instance ''myapp.Review'' [])]))
        sample_state) \<and>
   lookup_typeinfo (state_without ''manager.RelatedManager'') (RELATED_MANAGER_CLASS sample_env) = None \<and>
   \<not> final_iteration (state_without ''manager.RelatedManager'') \<and>
   AddRelatedManagers_loop sample_env [tags_rel] (state_without ''manager.RelatedManager'') =
     (Inl IncompleteDefnException, state_without ''manager.RelatedManager'')"
proof -
  have h: "get_accessor_name hidden_rel = None"
    "get_accessor_name cover_rel = Some ''cover''" "rel_kind cover_rel = OneToOneRel"
    "get_relation_related_model_cls sample_env cover_rel = Some Review_model"
    "lookup_typeinfo sample_state (get_class_fullname (model_class Review_model)) = Some plain_info"
    "get_accessor_name tags_rel = Some ''tags''" "rel_kind tags_rel = ManyToManyRel"
    "get_relation_related_model_cls sample_env tags_rel = Some Review_model"
    "lookup_typeinfo sample_state (RELATED_MANAGER_CLASS sample_env) = Some plain_info"
    by (simp_all add: sample_defs lookup_typeinfo_def)
  have v: "get_class_fullname (model_class Review_model) = ''myapp.Review''"
    "RELATED_MANAGER_CLASS sample_env = ''manager.RelatedManager''"
    by (simp_all add: sample_defs)
  from related_manager_dispatch [of hidden_rel sample_env "[]" sample_state] h(1)
  have 1: "AddRelatedManagers_loop sample_env [hidden_rel] sample_state =
             AddRelatedManagers_loop sample_env [] sample_state"
    by blast
  from related_manager_dispatch [of cover_rel sample_env "[]" sample_state "''cover''"
      Review_model plain_info] h(2-5)
  have 2: "AddRelatedManagers_loop sample_env [cover_rel] sample_state =
             AddRelatedManagers_loop sample_env []
               (add_new_node_to_model_class ''cover''
                  (InstanceT (Instance (get_class_fullname (model_class Review_model)) []))
                  sample_state)"
    by blast
  from related_manager_dispatch [of tags_rel sample_env "[]" sample_state "''tags''"
      Review_model plain_info plain_info] h(5-9)
  have 3: "AddRelatedManagers_loop sample_env [tags_rel] sample_state =
             AddRelatedManagers_loop sample_env []
               (add_new_node_to_model_class ''tags''
                  (InstanceT (Instance (RELATED_MANAGER_CLASS sample_env)
                     [InstanceT (Instance (get_class_fullname (model_class Review_model)) [])]))
                  sample_state)"
    by blast
  have k: "lookup_typeinfo (state_without ''manager.RelatedManager'')
             (get_class_fullname (model_class Review_model)) = Some plain_info"
    "lookup_typeinfo (state_without ''manager.RelatedManager'') (RELATED_MANAGER_CLASS sample_env) = None"
    "\<not> final_iteration (state_without ''manager.RelatedManager'')"
    by (simp_all add: sample_defs lookup_typeinfo_def)
  from related_manager_dispatch [of tags_rel sample_env "[]" "state_without ''manager.RelatedManager''"
      "''tags''" Review_model plain_info] h(6-8) k
  have 4: "AddRelatedManagers_loop sample_env [tags_rel] (state_without ''manager.RelatedManager'') =
     (Inl IncompleteDefnException, state_without ''manager.RelatedManager'')"
    by auto
  show ?thesis
    using h 1 2 3 4 k(2,3) by (simp only: v AddRelatedManagers_loop.simps(1) simp_thms)
qed

theorem related_manager_type_unresolved:
  "get_accessor_name review_set_rel = Some ''review_set'' \<and>
   rel_kind review_set_rel = ManyToOneRel \<and>
   get_relation_related_model_cls sample_env review_set_rel = Some Review_model \<and>
   lookup_typeinfo ((state_without ''manager.RelatedManager'')\<lparr>final_iteration := True\<rparr>)
     (get_class_fullname (model_class Review_model)) = Some plain_info \<and>
   fst (process_model_class sample_env
     ((state_without ''manager.RelatedManager'')\<lparr>final_iteration := True\<rparr>)) = Inr () \<and>
   map_of (names (cls_info (snd (process_model_class sample_env
     ((state_without ''manager.RelatedManager'')\<lparr>final_iteration := True\<rparr>))))) ''review_set'' = None"
  by code_simp

section \<open>The \<^verbatim>\<open>get_FOO_display\<close> methods\<close>

text \<open>
  C8, at a foreign key with choices. The claim names the method after the field,
  \<^verbatim>\<open>get_<field>_display\<close>, as Django does and as the comment on the loop says
  (\<^verbatim>\<open>get_FOO_display\<close>); the step formats the name with the field's \<^verbatim>\<open>attname\<close>,
  which for a foreign key is the field's name followed by \<^verbatim>\<open>_id\<close>. The pipeline runs
  to its end on the model \<^verbatim>\<open>Book\<close> with the foreign key \<^verbatim>\<open>author\<close> that has choices,
  reports nothing and asks for no other pass; afterwards the declaration has no
  \<^verbatim>\<open>get_author_display\<close>, and has a method \<^verbatim>\<open>get_author_id_display\<close> with no argument
  that returns \<^verbatim>\<open>str\<close>. For the field \<^verbatim>\<open>genre\<close>, whose \<^verbatim>\<open>attname\<close> is its name, the
  method is \<^verbatim>\<open>get_genre_display\<close>, and the field \<^verbatim>\<open>title\<close>, which has no choices, gets
  no method.
\<close>

theorem get_FOO_display_named_by_attname:
  "is_ForeignKey author_choice_field \<and> has_choices author_choice_field \<and>
   field_name author_choice_field = ''author'' \<and> attname author_choice_field = ''author_id'' \<and>
   fst (process_model_class choices_env sample_state) = Inr () \<and>
   \<not> deferred (snd (process_model_class choices_env sample_state)) \<and>
   errors (snd (process_model_class choices_env sample_state)) = [] \<and>
   map_of (names (cls_info (snd (process_model_class choices_env sample_state))))
     ''get_author_display'' = None \<and>
   map_of (names (cls_info (snd (process_model_class choices_env sample_state))))
     ''get_author_id_display'' =
     Some (SymbolTableNode (Some (FuncDef ''myapp.Book.get_author_id_display''
       (InstanceT (Instance ''myapp.Book'' [])) [] (InstanceT (Instance ''builtins.str'' []))))) \<and>
   has_choices genre_field \<and> attname genre_field = field_name genre_field \<and>
   map_of (names (cls_info (snd (process_model_class choices_env sample_state))))
     ''get_genre_display'' =
     Some (SymbolTableNode (Some (FuncDef ''myapp.Book.get_genre_display''
       (InstanceT (Instance ''myapp.Book'' [])) [] (InstanceT (Instance ''builtins.str'' []))))) \<and>
   \<not> has_choices title_field \<and>
   map_of (names (cls_info (snd (process_model_class choices_env sample_state))))
     ''get_title_display'' = None"
  by code_simp
section \<open>A manager whose class does not resolve\<close>

text \<open>
  C9, as the code has it. Let the class of a manager not resolve. On a pass that is not
  final the step raises at once and looks nothing else up. On the final pass the step
  reads the mapping \<^verbatim>\<open>from_queryset_managers\<close> that the type of the class's first base
  remembers (an empty mapping when that type does not resolve or remembers nothing). If
  the mapping has no entry for the manager's class, or the name it gives does not resolve
  either, the manager is passed over: the loop goes on with the next manager in the same
  state, so no diagnostic is reported. If the name resolves, the step goes on with the
  type found and the last component of that name as the class name.
\<close>

theorem unresolved_manager_class:
  fixes e :: env and st :: state and n :: string and mgr :: manager
  defines "generated \<equiv>
      get_generated_manager_mappings st (get_class_fullname (manager_class_base mgr))"
  assumes "lookup_typeinfo st (get_class_fullname (manager_class mgr)) = None"
  shows "(\<not> final_iteration st \<longrightarrow>
            AddManagers_loop e ((n, mgr) # rest) st = (Inl IncompleteDefnException, st)) \<and>
         (final_iteration st \<and>
          map_of generated (get_class_fullname (manager_class mgr)) = None \<longrightarrow>
            AddManagers_loop e ((n, mgr) # rest) st = AddManagers_loop e rest st) \<and>
         (final_iteration st \<and>
          map_of generated (get_class_fullname (manager_class mgr)) = Some real \<and>
          lookup_typeinfo st real = None \<longrightarrow>
            AddManagers_loop e ((n, mgr) # rest) st = AddManagers_loop e rest st) \<and>
         (final_iteration st \<and>
          map_of generated (get_class_fullname (manager_class mgr)) = Some real \<and>
          lookup_typeinfo st real = Some info \<and> rsplit_dot_1 real = Inr cn \<longrightarrow>
            AddManagers_loop e ((n, mgr) # rest) st =
              (case add_manager_node e n mgr real info cn st of
                 (Inl exc, st') \<Rightarrow> (Inl exc, st')
               | (Inr u, st') \<Rightarrow> AddManagers_loop e rest st')) \<and>
         generated =
           (case lookup_typeinfo st (get_class_fullname (manager_class_base mgr)) of
              None \<Rightarrow> []
            | Some base_info \<Rightarrow>
                (case from_queryset_managers base_info of None \<Rightarrow> [] | Some d \<Rightarrow> d))"
  using assms(2) unfolding generated_def
  by (auto simp: resolve_manager_info_def lookup_typeinfo_or_incomplete_defn_error_def
      get_generated_manager_mappings_def Let_def)

theorem unresolved_manager_class_witness:
  "lookup_typeinfo (generated_state\<lparr>final_iteration := True\<rparr>)
     (get_class_fullname (manager_class generated_manager)) = None \<and>
   final_iteration (generated_state\<lparr>final_iteration := True\<rparr>) \<and>
   map_of (get_generated_manager_mappings (generated_state\<lparr>final_iteration := True\<rparr>)
             (get_class_fullname (manager_class_base generated_manager)))
     (get_class_fullname (manager_class generated_manager)) = Some ''myapp.NewManager'' \<and>
   lookup_typeinfo (generated_state\<lparr>final_iteration := True\<rparr>) ''myapp.NewManager'' =
     Some plain_info \<and>
   rsplit_dot_1 ''myapp.NewManager'' = Inr ''NewManager'' \<and>
   AddManagers_loop sample_env [(''objects'', generated_manager)]
       (generated_state\<lparr>final_iteration := True\<rparr>) =
     (Inr (), add_new_node_to_model_class ''objects''
        (InstanceT (Instance ''myapp.NewManager'' [InstanceT (Instance ''myapp.Book'' [])]))
        (generated_state\<lparr>final_iteration := True\<rparr>)) \<and>
   lookup_typeinfo ((state_without ''myapp.BookManager'')\<lparr>final_iteration := True\<rparr>)
     (get_class_fullname (manager_class book_manager)) = None \<and>
   AddManagers_loop sample_env [(''objects'', book_manager)]
       ((state_without ''myapp.BookManager'')\<lparr>final_iteration := True\<rparr>) =
     (Inr (), (state_without ''myapp.BookManager'')\<lparr>final_iteration := True\<rparr>) \<and>
   \<not> final_iteration generated_state \<and>
   AddManagers_loop sample_env [(''objects'', generated_manager)] generated_state =
     (Inl IncompleteDefnException, generated_state) \<and>
   lookup_typeinfo (generated_state\<lparr>final_iteration := True,
       types := AList.delete ''myapp.NewManager'' (types generated_state)\<rparr>) ''myapp.NewManager'' = None \<and>
   AddManagers_loop sample_env [(''objects'', generated_manager)]
       (generated_state\<lparr>final_iteration := True,
          types := AList.delete ''myapp.NewManager'' (types generated_state)\<rparr>) =
     (Inr (), generated_state\<lparr>final_iteration := True,
          types := AList.delete ''myapp.NewManager'' (types generated_state)\<rparr>)"
proof -
  let ?g = "generated_state\<lparr>final_iteration := True\<rparr>"
  let ?w = "(state_without ''myapp.BookManager'')\<lparr>final_iteration := True\<rparr>"
  have h1: "lookup_typeinfo ?g (get_class_fullname (manager_class generated_manager)) = None"
    and h2: "final_iteration ?g"
    and h3: "map_of (get_generated_manager_mappings ?g
                (get_class_fullname (manager_class_base generated_manager)))
              (get_class_fullname (manager_class generated_manager)) = Some ''myapp.NewManager''"
    and h4: "lookup_typeinfo ?g ''myapp.NewManager'' = Some plain_info"
    and h5: "rsplit_dot_1 ''myapp.NewManager'' = Inr ''NewManager''"
    by (simp_all add: sample_defs lookup_typeinfo_def get_generated_manager_mappings_def
        rsplit_dot_1_def)
  have node: "add_manager_node sample_env ''objects'' generated_manager ''myapp.NewManager''
                plain_info ''NewManager'' ?g =
              (Inr (), add_new_node_to_model_class ''objects''
                 (InstanceT (Instance ''myapp.NewManager'' [InstanceT (Instance ''myapp.Book'' [])])) ?g)"
    by (simp add: sample_defs add_manager_node_def)
  have k1: "lookup_typeinfo ?w (get_class_fullname (manager_class book_manager)) = None"
    and k2: "final_iteration ?w"
    and k3: "map_of (get_generated_manager_mappings ?w
                (get_class_fullname (manager_class_base book_manager)))
              (get_class_fullname (manager_class book_manager)) = None"
    by (simp_all add: sample_defs lookup_typeinfo_def get_generated_manager_mappings_def)
  from unresolved_manager_class [OF h1, of sample_env "''objects''" "[]" "''myapp.NewManager''"
      plain_info "''NewManager''"] h2 h3 h4 h5
  have "AddManagers_loop sample_env [(''objects'', generated_manager)] ?g =
          (case add_manager_node sample_env ''objects'' generated_manager ''myapp.NewManager''
                  plain_info ''NewManager'' ?g of
             (Inl exc, st') \<Rightarrow> (Inl exc, st')
           | (Inr u, st') \<Rightarrow> AddManagers_loop sample_env [] st')"
    by blast
  then have 1: "AddManagers_loop sample_env [(''objects'', generated_manager)] ?g =
      (Inr (), add_new_node_to_model_class ''objects''
         (InstanceT (Instance ''myapp.NewManager'' [InstanceT (Instance ''myapp.Book'' [])])) ?g)"
    by (simp only: node prod.case sum.case AddManagers_loop.simps(1))
  from unresolved_manager_class [OF k1, of sample_env "''objects''" "[]"] k2 k3
  have "AddManagers_loop sample_env [(''objects'', book_manager)] ?w =
          AddManagers_loop sample_env [] ?w"
    by blast
  then have 2: "AddManagers_loop sample_env [(''objects'', book_manager)] ?w = (Inr (), ?w)"
    by (simp only: AddManagers_loop.simps(1))
  let ?u = "generated_state\<lparr>final_iteration := True,
          types := AList.delete ''myapp.NewManager'' (types generated_state)\<rparr>"
  have n1: "lookup_typeinfo generated_state (get_class_fullname (manager_class generated_manager)) = None"
    and n2: "\<not> final_iteration generated_state"
    by (simp_all add: sample_defs lookup_typeinfo_def)
  from unresolved_manager_class [OF n1, of sample_env "''objects''" "[]"] n2
  have 3: "AddManagers_loop sample_env [(''objects'', generated_manager)] generated_state =
     (Inl IncompleteDefnException, generated_state)"
    by blast
  have u1: "lookup_typeinfo ?u (get_class_fullname (manager_class generated_manager)) = None"
    and u2: "final_iteration ?u"
    and u3: "map_of (get_generated_manager_mappings ?u
                (get_class_fullname (manager_class_base generated_manager)))
              (get_class_fullname (manager_class generated_manager)) = Some ''myapp.NewManager''"
    and u4: "lookup_typeinfo ?u ''myapp.NewManager'' = None"
    by (simp_all add: sample_defs lookup_typeinfo_def get_generated_manager_mappings_def)
  from unresolved_manager_class [OF u1, of sample_env "''objects''" "[]" "''myapp.NewManager''"]
    u2 u3 u4
  have "AddManagers_loop sample_env [(''objects'', generated_manager)] ?u =
          AddManagers_loop sample_env [] ?u"
    by blast
  then have 4: "AddManagers_loop sample_env [(''objects'', generated_manager)] ?u = (Inr (), ?u)"
    by (simp only: AddManagers_loop.simps(1))
  from h1 h2 h3 h4 h5 k1 1 2 n2 3 u4 4 show ?thesis
    by (intro conjI)
qed

theorem no_alternate_lookup_before_final_pass:
  "\<not> final_iteration generated_state \<and>
   lookup_typeinfo generated_state (get_class_fullname (manager_class generated_manager)) = None \<and>
   map_of (get_generated_manager_mappings generated_state
             (get_class_fullname (manager_class_base generated_manager)))
     (get_class_fullname (manager_class generated_manager)) = Some ''myapp.NewManager'' \<and>
   lookup_typeinfo generated_state ''myapp.NewManager'' = Some plain_info \<and>
   run_initializer (env_with_managers [(''objects'', generated_manager)]) AddManagers
     generated_state = (Inl IncompleteDefnException, generated_state)"
  by (simp add: sample_defs step_defs get_generated_manager_mappings_def resolve_manager_info_def)

section \<open>An exception inside a step's loop\<close>

lemma AddRelatedModelsId_item_raises:
  "AddRelatedModelsId_loop e [f] st = (Inl exc, st') \<Longrightarrow> st' = st \<and> \<not> final_iteration st"
  by (auto simp: Let_def split: if_splits option.splits sum.splits prod.splits)

lemma AddRelatedManagers_item_raises:
  "AddRelatedManagers_loop e [x] st = (Inl exc, st') \<Longrightarrow> st' = st \<and> \<not> final_iteration st"
  by (auto simp: Let_def split: if_splits option.splits sum.splits)

text \<open>
  C10. On a pass that is not final, let one item of a step's loop (a foreign key, a
  manager, a reverse relation) raise \<^verbatim>\<open>IncompleteDefnException\<close> after the items \<open>pre\<close>
  before it were processed without an exception. Then the loop ends with that exception
  in the state the items \<open>pre\<close> left, whatever items \<open>rest\<close> follow: none of them is
  processed. For the foreign keys the step as a whole raises, and the controller, which
  catches the exception only there, calls \<^verbatim>\<open>defer\<close> and goes on with the next step.
\<close>

theorem exception_ends_the_step:
  assumes "\<not> final_iteration st"
  shows "(get_model_class_by_fullname e (cls_fullname st) = Some m \<and>
          get_fields m = pre @ f # rest \<and>
          AddRelatedModelsId_loop e pre st = (Inr (), st1) \<and>
          AddRelatedModelsId_loop e [f] st1 = (Inl IncompleteDefnException, st2) \<longrightarrow>
            st2 = st1 \<and>
            run_initializer e AddRelatedModelsId st = (Inl IncompleteDefnException, st1) \<and>
            process_loop e (AddRelatedModelsId # later) st = process_loop e later (api_defer st1)) \<and>
         (AddManagers_loop e mpre st = (Inr (), st1) \<and>
          AddManagers_loop e [(n, mgr)] st1 = (Inl IncompleteDefnException, st2) \<longrightarrow>
            AddManagers_loop e (mpre @ (n, mgr) # mrest) st = (Inl IncompleteDefnException, st1)) \<and>
         (AddRelatedManagers_loop e rpre st = (Inr (), st1) \<and>
          AddRelatedManagers_loop e [x] st1 = (Inl IncompleteDefnException, st2) \<longrightarrow>
            AddRelatedManagers_loop e (rpre @ x # rrest) st = (Inl IncompleteDefnException, st1))"
proof (intro conjI impI)
  assume h: "get_model_class_by_fullname e (cls_fullname st) = Some m \<and>
          get_fields m = pre @ f # rest \<and>
          AddRelatedModelsId_loop e pre st = (Inr (), st1) \<and>
          AddRelatedModelsId_loop e [f] st1 = (Inl IncompleteDefnException, st2)"
  then show eq: "st2 = st1"
    using AddRelatedModelsId_item_raises by blast
  have "AddRelatedModelsId_loop e ([f] @ rest) st1 = (Inl IncompleteDefnException, st1)"
    using h eq by (subst AddRelatedModelsId_loop_append) simp
  then have "AddRelatedModelsId_loop e (pre @ f # rest) st = (Inl IncompleteDefnException, st1)"
    using h by (subst AddRelatedModelsId_loop_append) simp
  with h show step: "run_initializer e AddRelatedModelsId st = (Inl IncompleteDefnException, st1)"
    by (simp add: run_model AddRelatedModelsId_run_with_model_cls_def)
  have "same_pass st st1"
    using same_pass_run_initializer [OF step] .
  with assms have "\<not> final_iteration st1"
    by (simp add: same_pass_def)
  with step show "process_loop e (AddRelatedModelsId # later) st = process_loop e later (api_defer st1)"
    by simp
next
  assume h: "AddManagers_loop e mpre st = (Inr (), st1) \<and>
          AddManagers_loop e [(n, mgr)] st1 = (Inl IncompleteDefnException, st2)"
  then have eq: "st2 = st1"
    using AddManagers_item_raises by blast
  have "AddManagers_loop e ([(n, mgr)] @ mrest) st1 = (Inl IncompleteDefnException, st1)"
    using h eq by (subst AddManagers_loop_append) simp
  then show "AddManagers_loop e (mpre @ (n, mgr) # mrest) st = (Inl IncompleteDefnException, st1)"
    using h by (subst AddManagers_loop_append) simp
next
  assume h: "AddRelatedManagers_loop e rpre st = (Inr (), st1) \<and>
          AddRelatedManagers_loop e [x] st1 = (Inl IncompleteDefnException, st2)"
  then have eq: "st2 = st1"
    using AddRelatedManagers_item_raises by blast
  have "AddRelatedManagers_loop e ([x] @ rrest) st1 = (Inl IncompleteDefnException, st1)"
    using h eq by (subst AddRelatedManagers_loop_append) simp
  then show "AddRelatedManagers_loop e (rpre @ x # rrest) st = (Inl IncompleteDefnException, st1)"
    using h by (subst AddRelatedManagers_loop_append) simp
qed

theorem exception_ends_the_step_witness:
  "\<not> final_iteration sample_state \<and>
   AddRelatedModelsId_loop (env_with_fields [author_field, review_field, publisher_field])
     [review_field]
     (snd (AddRelatedModelsId_loop (env_with_fields [author_field, review_field, publisher_field])
        [author_field] sample_state)) =
     (Inl IncompleteDefnException,
      snd (AddRelatedModelsId_loop (env_with_fields [author_field, review_field, publisher_field])
        [author_field] sample_state)) \<and>
   run_initializer (env_with_fields [author_field, review_field, publisher_field])
     AddRelatedModelsId sample_state =
     (Inl IncompleteDefnException,
      snd (AddRelatedModelsId_loop (env_with_fields [author_field, review_field, publisher_field])
        [author_field] sample_state)) \<and>
   process_loop (env_with_fields [author_field, review_field, publisher_field])
     [AddRelatedModelsId] sample_state =
     (Inr (), api_defer (snd (AddRelatedModelsId_loop
        (env_with_fields [author_field, review_field, publisher_field])
        [author_field] sample_state))) \<and>
   AddManagers_loop sample_env [(''objects'', book_manager), (''people'', book_manager)]
     (state_without ''myapp.BookManager'') =
     (Inl IncompleteDefnException, state_without ''myapp.BookManager'') \<and>
   AddRelatedManagers_loop sample_env [hidden_rel, cover_rel, review_set_rel, tags_rel]
     (state_without ''myapp.Review'') =
     (Inl IncompleteDefnException, state_without ''myapp.Review'')"
proof -
  let ?e = "env_with_fields [author_field, review_field, publisher_field]"
  let ?s1 = "snd (AddRelatedModelsId_loop ?e [author_field] sample_state)"
  have nf: "\<not> final_iteration sample_state" "\<not> final_iteration (state_without ''myapp.BookManager'')"
    "\<not> final_iteration (state_without ''myapp.Review'')"
    by (simp_all add: sample_defs)
  have a1: "get_model_class_by_fullname ?e (cls_fullname sample_state) =
              Some (Book_model\<lparr>get_fields := [author_field, review_field, publisher_field]\<rparr>)"
    by (simp add: sample_defs)
  have a2: "get_fields (Book_model\<lparr>get_fields := [author_field, review_field, publisher_field]\<rparr>) =
              [author_field] @ review_field # [publisher_field]"
    by simp
  have a3: "AddRelatedModelsId_loop ?e [author_field] sample_state = (Inr (), ?s1)"
    by (simp add: sample_defs step_defs)
  have a4: "AddRelatedModelsId_loop ?e [review_field] ?s1 = (Inl IncompleteDefnException, ?s1)"
    by (simp add: sample_defs step_defs)
  have b1: "AddManagers_loop sample_env [] (state_without ''myapp.BookManager'') =
              (Inr (), state_without ''myapp.BookManager'')"
    by simp
  have b2: "AddManagers_loop sample_env [(''objects'', book_manager)] (state_without ''myapp.BookManager'') =
              (Inl IncompleteDefnException, state_without ''myapp.BookManager'')"
    by (simp add: sample_defs step_defs resolve_manager_info_def)
  have c1: "AddRelatedManagers_loop sample_env [hidden_rel] (state_without ''myapp.Review'') =
              (Inr (), state_without ''myapp.Review'')"
    by (simp add: sample_defs)
  have c2: "AddRelatedManagers_loop sample_env [cover_rel] (state_without ''myapp.Review'') =
              (Inl IncompleteDefnException, state_without ''myapp.Review'')"
    by (simp add: sample_defs step_defs)
  note fk = exception_ends_the_step [OF nf(1), where e = ?e and pre = "[author_field]"
      and f = review_field and rest = "[publisher_field]" and ?st1.0 = ?s1 and ?st2.0 = ?s1
      and m = "Book_model\<lparr>get_fields := [author_field, review_field, publisher_field]\<rparr>"
      and later = "[]"]
  note mg = exception_ends_the_step [OF nf(2), where e = sample_env and mpre = "[]"
      and n = "''objects''" and mgr = book_manager and mrest = "[(''people'', book_manager)]"
      and ?st1.0 = "state_without ''myapp.BookManager''"
      and ?st2.0 = "state_without ''myapp.BookManager''"]
  note rl = exception_ends_the_step [OF nf(3), where e = sample_env and rpre = "[hidden_rel]"
      and x = cover_rel and rrest = "[review_set_rel, tags_rel]"
      and ?st1.0 = "state_without ''myapp.Review''"
      and ?st2.0 = "state_without ''myapp.Review''"]
  from fk a1 a2 a3 a4 have k1:
    "run_initializer ?e AddRelatedModelsId sample_state = (Inl IncompleteDefnException, ?s1)"
    and k2: "process_loop ?e (AddRelatedModelsId # []) sample_state = process_loop ?e [] (api_defer ?s1)"
    by blast+
  from mg b1 b2 have k3:
    "AddManagers_loop sample_env ([] @ (''objects'', book_manager) # [(''people'', book_manager)])
       (state_without ''myapp.BookManager'') =
     (Inl IncompleteDefnException, state_without ''myapp.BookManager'')"
    by blast
  from rl c1 c2 have k4:
    "AddRelatedManagers_loop sample_env ([hidden_rel] @ cover_rel # [review_set_rel, tags_rel])
       (state_without ''myapp.Review'') =
     (Inl IncompleteDefnException, state_without ''myapp.Review'')"
    by blast
  have k2': "process_loop ?e [AddRelatedModelsId] sample_state = (Inr (), api_defer ?s1)"
    using k2 by (simp only: process_loop.simps(1))
  show ?thesis
    using nf(1) a4 k1 k2' k3 k4 by (simp only: append.simps simp_thms)
qed

end
